theory Spec2Isabelle
  imports Main "HOL-Library.Word"
begin

section \<open>Go values\<close>

text \<open>
  The two files pass values to three collaborators through Go's \<^verbatim>\<open>interface{}\<close>:
  \<^verbatim>\<open>fmt.Sprintf\<close> (path arguments), \<^verbatim>\<open>encoding/json\<close> (entities, through their struct
  tags) and the HTTP client. A \<open>Value\<close> is what those collaborators see of a Go value by
  reflection: its kind and its content. Values of the types that the two files use but do
  not declare (\<^verbatim>\<open>Image\<close>, \<^verbatim>\<open>Variant\<close>, \<^verbatim>\<open>CustomerAddress\<close>, \<^verbatim>\<open>time.Time\<close>,
  \<^verbatim>\<open>decimal.Decimal\<close>) are kept as such \<open>Value\<close>s.
\<close>

type_synonym uint64 = "64 word"

datatype Value =
    VBool bool
  | VInt int
  | VUint uint64
  | VString string
  | VPointer "Value option"
  | VSlice "Value list"
  | VStruct "(string \<times> Value) list"

text \<open>A Go \<^verbatim>\<open>error\<close> value, known by its message; \<open>None\<close> is the nil error.\<close>

datatype error = Error string

section \<open>fmt.Sprintf\<close>

text \<open>
  The fragment of \<^verbatim>\<open>fmt\<close> that the two files use: format strings made of literal text and
  the plain verbs \<^verbatim>\<open>%s\<close>, \<^verbatim>\<open>%d\<close> and \<^verbatim>\<open>%v\<close> (no flags, width, precision or argument
  index), applied to strings and unsigned integers. \<open>doPrintf\<close> is \<open>None\<close> outside this
  fragment, so nothing is stated about the text Go prints there.
\<close>

definition ldigits :: string where
  "ldigits = ''0123456789abcdefx''"

text \<open>
  \<^verbatim>\<open>fmt.fmtInteger\<close>, base 10, unsigned: digits are written from the end of the buffer.
  \<^verbatim>\<open>
  for u >= 10 {
      i--
      next := u / 10
      buf[i] = byte('0' + u - next*10)
      u = next
  }
  i--
  buf[i] = digits[u]
  \<close>
\<close>

fun fmtInteger :: "nat \<Rightarrow> string \<Rightarrow> string" where
  "fmtInteger u buf =
     (if u \<ge> 10
      then (let next = u div 10 in fmtInteger next (char_of (48 + u - next * 10) # buf))
      else (ldigits ! u) # buf)"

declare fmtInteger.simps [simp del]

text \<open>\<^verbatim>\<open>pp.fmtString\<close> and \<^verbatim>\<open>pp.fmtInteger\<close>: the switch on the verb.\<close>

definition pp_fmtString :: "string \<Rightarrow> char \<Rightarrow> string option" where
  "pp_fmtString v verb =
     (if verb = CHR ''v'' then Some v
      else if verb = CHR ''s'' then Some v
      else None)"

definition pp_fmtInteger :: "uint64 \<Rightarrow> char \<Rightarrow> string option" where
  "pp_fmtInteger v verb =
     (if verb = CHR ''v'' then Some (fmtInteger (unat v) [])
      else if verb = CHR ''d'' then Some (fmtInteger (unat v) [])
      else None)"

text \<open>\<^verbatim>\<open>pp.printArg\<close>: the type switch on the argument.\<close>

fun printArg :: "Value \<Rightarrow> char \<Rightarrow> string option" where
  "printArg (VString f) verb = pp_fmtString f verb"
| "printArg (VUint f) verb = pp_fmtInteger f verb"
| "printArg _ verb = None"

fun doPrintf :: "string \<Rightarrow> Value list \<Rightarrow> string option" where
  "doPrintf [] [] = Some []"
| "doPrintf [] (x # xs) = None"
| "doPrintf (c # format) a =
     (if c \<noteq> CHR ''%'' then map_option ((#) c) (doPrintf format a)
      else (case format of
              [] \<Rightarrow> None
            | verb # rest \<Rightarrow>
                (if verb = CHR ''%'' then map_option ((#) CHR ''%'') (doPrintf rest a)
                 else (case a of
                         [] \<Rightarrow> None
                       | x # xs \<Rightarrow>
                           (case printArg x verb of
                              None \<Rightarrow> None
                            | Some s \<Rightarrow> map_option ((@) s) (doPrintf rest xs))))))"

definition Sprintf :: "string \<Rightarrow> Value list \<Rightarrow> string" where
  "Sprintf format a = the (doPrintf format a)"

text \<open>Reading a decimal numeral back: the value of a digit string, most significant first.\<close>

definition digit_value :: "char \<Rightarrow> nat" where
  "digit_value c = of_char c - 48"

definition decimal_value :: "string \<Rightarrow> nat" where
  "decimal_value s = foldl (\<lambda>acc c. 10 * acc + digit_value c) 0 s"

definition is_digit :: "char \<Rightarrow> bool" where
  "is_digit c = (48 \<le> (of_char c :: nat) \<and> (of_char c :: nat) \<le> 57)"

section \<open>encoding/json: which keys a struct is written with\<close>

text \<open>
  A struct value is the list of its fields in declaration order, each with the content of
  its \<^verbatim>\<open>json:"..."\<close> tag. The tag is the key, then a comma-separated list of options.
  The encoder skips a field when its tag has the option \<^verbatim>\<open>omitempty\<close> and
  \<^verbatim>\<open>isEmptyValue\<close> holds of its value: false, 0, a nil pointer, and an empty slice or string
  are empty; a struct never is.
\<close>

fun Split :: "string \<Rightarrow> string list" where
  "Split [] = [[]]"
| "Split (c # s) =
     (if c = CHR '','' then [] # Split s
      else (case Split s of [] \<Rightarrow> [[c]] | x # xs \<Rightarrow> (c # x) # xs))"

definition tag_name :: "string \<Rightarrow> string" where
  "tag_name tag = hd (Split tag)"

definition tag_omitEmpty :: "string \<Rightarrow> bool" where
  "tag_omitEmpty tag = List.member (tl (Split tag)) ''omitempty''"

fun isEmptyValue :: "Value \<Rightarrow> bool" where
  "isEmptyValue (VSlice xs) = (length xs = 0)"
| "isEmptyValue (VString s) = (length s = 0)"
| "isEmptyValue (VBool b) = (b = False)"
| "isEmptyValue (VInt i) = (i = 0)"
| "isEmptyValue (VUint u) = (u = 0)"
| "isEmptyValue (VPointer p) = (p = None)"
| "isEmptyValue (VStruct fs) = False"

definition written :: "string \<times> Value \<Rightarrow> bool" where
  "written f = (if tag_omitEmpty (fst f) \<and> isEmptyValue (snd f) then False else True)"

fun Marshal_keys :: "Value \<Rightarrow> string list" where
  "Marshal_keys (VStruct fs) = map (\<lambda>f. tag_name (fst f)) (filter written fs)"
| "Marshal_keys _ = []"

section \<open>Entities\<close>

text \<open>
  Modelled from the spec: the Metafield entity is declared outside the two files. The spec
  calls it a key/value annotation with its own id (Update of a metafield targets
  \<^verbatim>\<open><metafield-id>.json\<close>); its envelopes follow the singular/plural convention.
\<close>

record Metafield =
  ID :: uint64
  Key :: string
  Val :: string

record MetafieldResource =
  Metafield :: "Metafield option"

record MetafieldsResource =
  Metafields :: "Metafield list"

definition Metafield_Value :: "Metafield \<Rightarrow> Value" where
  "Metafield_Value m =
     VStruct [(''id,omitempty'', VUint (Metafield.ID m)),
              (''key,omitempty'', VString (Key m)),
              (''value,omitempty'', VString (Val m))]"

record ProductOption =
  ID :: uint64
  ProductID :: int
  Name :: string
  Position :: int
  Values :: "string list"

record Product =
  ID :: uint64
  Title :: string
  BodyHTML :: string
  Vendor :: string
  ProductType :: string
  Handle :: string
  CreatedAt :: "Value option"
  UpdatedAt :: "Value option"
  PublishedAt :: "Value option"
  PublishedScope :: string
  Tags :: string
  Options :: "ProductOption list"
  Variants :: "Value list"
  Image :: Value
  Images :: "Value list"
  TemplateSuffix :: string
  MetafieldsGlobalTitleTag :: string
  MetafieldsGlobalDescriptionTag :: string
  Metafields :: "Metafield list"

record ProductResource =
  Product :: "Product option"

record ProductsResource =
  Products :: "Product list"

record Customer =
  ID :: uint64
  Email :: string
  FirstName :: string
  LastName :: string
  State :: string
  Note :: string
  VerifiedEmail :: bool
  MultipassIdentifier :: string
  OrdersCount :: int
  TaxExempt :: bool
  TotalSpent :: "Value option"
  Phone :: string
  Tags :: string
  LastOrderId :: int
  LastOrderName :: string
  AcceptsMarketing :: bool
  DefaultAddress :: "Value option"
  Addresses :: "Value option list"
  CreatedAt :: "Value option"
  UpdatedAt :: "Value option"
  Metafields :: "Metafield list"

record CustomerResource =
  Customer :: "Customer option"

record CustomersResource =
  Customers :: "Customer list"

record CustomerSearchOptions =
  Page :: int
  Limit :: int
  Fields :: string
  Order :: string
  Query :: string

text \<open>The struct declarations as reflection shows them: every field with its json tag.\<close>

definition ProductOption_Value :: "ProductOption \<Rightarrow> Value" where
  "ProductOption_Value x =
     VStruct [(''id,omitempty'', VUint (ProductOption.ID x)),
              (''product_id,omitempty'', VInt (ProductID x)),
              (''name,omitempty'', VString (Name x)),
              (''position,omitempty'', VInt (Position x)),
              (''values,omitempty'', VSlice (map VString (Values x)))]"

definition Product_Value :: "Product \<Rightarrow> Value" where
  "Product_Value p =
     VStruct [(''id,omitempty'', VUint (Product.ID p)),
              (''title,omitempty'', VString (Title p)),
              (''body_html,omitempty'', VString (BodyHTML p)),
              (''vendor,omitempty'', VString (Vendor p)),
              (''product_type,omitempty'', VString (ProductType p)),
              (''handle,omitempty'', VString (Handle p)),
              (''created_at,omitempty'', VPointer (Product.CreatedAt p)),
              (''updated_at,omitempty'', VPointer (Product.UpdatedAt p)),
              (''published_at,omitempty'', VPointer (PublishedAt p)),
              (''published_scope,omitempty'', VString (PublishedScope p)),
              (''tags,omitempty'', VString (Product.Tags p)),
              (''options,omitempty'', VSlice (map ProductOption_Value (Options p))),
              (''variants,omitempty'', VSlice (Variants p)),
              (''image,omitempty'', Image p),
              (''images,omitempty'', VSlice (Images p)),
              (''template_suffix,omitempty'', VString (TemplateSuffix p)),
              (''metafields_global_title_tag,omitempty'', VString (MetafieldsGlobalTitleTag p)),
              (''metafields_global_description_tag,omitempty'',
                 VString (MetafieldsGlobalDescriptionTag p)),
              (''metafields,omitempty'', VSlice (map Metafield_Value (Product.Metafields p)))]"

definition ProductResource_Value :: "ProductResource \<Rightarrow> Value" where
  "ProductResource_Value r = VStruct [(''product'', VPointer (map_option Product_Value (Product r)))]"

definition ProductsResource_Value :: "ProductsResource \<Rightarrow> Value" where
  "ProductsResource_Value r = VStruct [(''products'', VSlice (map Product_Value (Products r)))]"

definition Customer_Value :: "Customer \<Rightarrow> Value" where
  "Customer_Value c =
     VStruct [(''id,omitempty'', VUint (Customer.ID c)),
              (''email,omitempty'', VString (Email c)),
              (''first_name,omitempty'', VString (FirstName c)),
              (''last_name,omitempty'', VString (LastName c)),
              (''state,omitempty'', VString (State c)),
              (''note,omitempty'', VString (Note c)),
              (''verified_email,omitempty'', VBool (VerifiedEmail c)),
              (''multipass_identifier,omitempty'', VString (MultipassIdentifier c)),
              (''orders_count,omitempty'', VInt (OrdersCount c)),
              (''tax_exempt,omitempty'', VBool (TaxExempt c)),
              (''total_spent,omitempty'', VPointer (TotalSpent c)),
              (''phone,omitempty'', VString (Phone c)),
              (''tags,omitempty'', VString (Customer.Tags c)),
              (''last_order_id,omitempty'', VInt (LastOrderId c)),
              (''last_order_name,omitempty'', VString (LastOrderName c)),
              (''accepts_marketing,omitempty'', VBool (AcceptsMarketing c)),
              (''default_address,omitempty'', VPointer (DefaultAddress c)),
              (''addresses,omitempty'', VSlice (map VPointer (Addresses c))),
              (''created_at,omitempty'', VPointer (Customer.CreatedAt c)),
              (''updated_at,omitempty'', VPointer (Customer.UpdatedAt c)),
              (''metafields,omitempty'', VSlice (map Metafield_Value (Customer.Metafields c)))]"

definition CustomerResource_Value :: "CustomerResource \<Rightarrow> Value" where
  "CustomerResource_Value r =
     VStruct [(''customer'', VPointer (map_option Customer_Value (Customer r)))]"

definition CustomersResource_Value :: "CustomersResource \<Rightarrow> Value" where
  "CustomersResource_Value r = VStruct [(''customers'', VSlice (map Customer_Value (Customers r)))]"

text \<open>
  The zero values. \<^verbatim>\<open>Product{}\<close> holds the zero value of the type \<^verbatim>\<open>Image\<close>, which the
  two files do not declare: it is taken as the parameter \<open>img\<close>.
\<close>

definition Product_zero :: "Value \<Rightarrow> Product" where
  "Product_zero img =
     \<lparr>Product.ID = 0, Title = [], BodyHTML = [], Vendor = [], ProductType = [], Handle = [],
      Product.CreatedAt = None, Product.UpdatedAt = None, PublishedAt = None,
      PublishedScope = [], Product.Tags = [], Options = [], Variants = [], Image = img,
      Images = [], TemplateSuffix = [], MetafieldsGlobalTitleTag = [],
      MetafieldsGlobalDescriptionTag = [], Product.Metafields = []\<rparr>"

definition Customer_zero :: Customer where
  "Customer_zero =
     \<lparr>Customer.ID = 0, Email = [], FirstName = [], LastName = [], State = [], Note = [],
      VerifiedEmail = False, MultipassIdentifier = [], OrdersCount = 0, TaxExempt = False,
      TotalSpent = None, Phone = [], Tags = [], LastOrderId = 0, LastOrderName = [],
      AcceptsMarketing = False, DefaultAddress = None, Addresses = [], CreatedAt = None,
      UpdatedAt = None, Metafields = []\<rparr>"

section \<open>The HTTP client\<close>

text \<open>
  The shared \<^verbatim>\<open>*Client\<close> is a collaborator. Its five primitives are taken as they are
  given: \<^verbatim>\<open>Get(path, resource, options) error\<close>, \<^verbatim>\<open>Post(path, data, resource) error\<close>,
  \<^verbatim>\<open>Put(path, data, resource) error\<close>, \<^verbatim>\<open>Delete(path) error\<close> and
  \<^verbatim>\<open>Count(path, options) (int, error)\<close>. A call acts on the client and what lies behind
  it (the state \<open>'c\<close>), writes through the \<^verbatim>\<open>resource\<close> pointer, and returns an error or
  nil; here it takes the state and the envelope the pointer refers to and returns the
  envelope as the call leaves it, the error, and the new state. \<^verbatim>\<open>resource\<close> is an
  \<^verbatim>\<open>interface{}\<close>: the record holds the primitive at each envelope type that is passed to
  it. Query options are an \<^verbatim>\<open>interface{}\<close> too: any type \<open>'o\<close>, and \<open>None\<close> for nil.
\<close>

record ('c, 'o) Client =
  Get_ProductResource ::
    "string \<Rightarrow> ProductResource \<Rightarrow> 'o option \<Rightarrow> 'c \<Rightarrow> (ProductResource \<times> error option) \<times> 'c"
  Get_ProductsResource ::
    "string \<Rightarrow> ProductsResource \<Rightarrow> 'o option \<Rightarrow> 'c \<Rightarrow> (ProductsResource \<times> error option) \<times> 'c"
  Get_CustomerResource ::
    "string \<Rightarrow> CustomerResource \<Rightarrow> 'o option \<Rightarrow> 'c \<Rightarrow> (CustomerResource \<times> error option) \<times> 'c"
  Get_CustomersResource ::
    "string \<Rightarrow> CustomersResource \<Rightarrow> 'o option \<Rightarrow> 'c
       \<Rightarrow> (CustomersResource \<times> error option) \<times> 'c"
  Get_MetafieldResource ::
    "string \<Rightarrow> MetafieldResource \<Rightarrow> 'o option \<Rightarrow> 'c
       \<Rightarrow> (MetafieldResource \<times> error option) \<times> 'c"
  Get_MetafieldsResource ::
    "string \<Rightarrow> MetafieldsResource \<Rightarrow> 'o option \<Rightarrow> 'c
       \<Rightarrow> (MetafieldsResource \<times> error option) \<times> 'c"
  Post_ProductResource ::
    "string \<Rightarrow> ProductResource \<Rightarrow> ProductResource \<Rightarrow> 'c
       \<Rightarrow> (ProductResource \<times> error option) \<times> 'c"
  Post_CustomerResource ::
    "string \<Rightarrow> CustomerResource \<Rightarrow> CustomerResource \<Rightarrow> 'c
       \<Rightarrow> (CustomerResource \<times> error option) \<times> 'c"
  Post_MetafieldResource ::
    "string \<Rightarrow> MetafieldResource \<Rightarrow> MetafieldResource \<Rightarrow> 'c
       \<Rightarrow> (MetafieldResource \<times> error option) \<times> 'c"
  Put_ProductResource ::
    "string \<Rightarrow> ProductResource \<Rightarrow> ProductResource \<Rightarrow> 'c
       \<Rightarrow> (ProductResource \<times> error option) \<times> 'c"
  Put_CustomerResource ::
    "string \<Rightarrow> CustomerResource \<Rightarrow> CustomerResource \<Rightarrow> 'c
       \<Rightarrow> (CustomerResource \<times> error option) \<times> 'c"
  Put_MetafieldResource ::
    "string \<Rightarrow> MetafieldResource \<Rightarrow> MetafieldResource \<Rightarrow> 'c
       \<Rightarrow> (MetafieldResource \<times> error option) \<times> 'c"
  Delete :: "string \<Rightarrow> 'c \<Rightarrow> error option \<times> 'c"
  Count :: "string \<Rightarrow> 'o option \<Rightarrow> 'c \<Rightarrow> (int \<times> error option) \<times> 'c"

text \<open>\<^verbatim>\<open>new(T)\<close> for the envelope types: the field is nil.\<close>

definition new_ProductResource :: ProductResource where
  "new_ProductResource = \<lparr>Product = None\<rparr>"

definition new_ProductsResource :: ProductsResource where
  "new_ProductsResource = \<lparr>Products = []\<rparr>"

definition new_CustomerResource :: CustomerResource where
  "new_CustomerResource = \<lparr>Customer = None\<rparr>"

definition new_CustomersResource :: CustomersResource where
  "new_CustomersResource = \<lparr>Customers = []\<rparr>"

definition new_MetafieldResource :: MetafieldResource where
  "new_MetafieldResource = \<lparr>Metafield = None\<rparr>"

definition new_MetafieldsResource :: MetafieldsResource where
  "new_MetafieldsResource = \<lparr>MetafieldsResource.Metafields = []\<rparr>"

section \<open>The metafield helper\<close>

text \<open>
  Modelled from the spec: \<^verbatim>\<open>MetafieldServiceOp\<close> is constructed by the two files, with the
  fields \<^verbatim>\<open>client\<close>, \<^verbatim>\<open>resource\<close> and \<^verbatim>\<open>resourceID\<close>, but its methods are declared
  outside them. The spec gives the helper the operations List, Count, Get, Create, Update
  and Delete of a resource client, each one call of a client primitive, against the paths
  \<^verbatim>\<open><resource-type>/<resource-id>/metafields[.json | /<metafield-id>.json]\<close>, with the
  count under \<^verbatim>\<open>/count.json\<close> as for the resource clients.
\<close>

record ('c, 'o) MetafieldServiceOp =
  client :: "('c, 'o) Client"
  resource :: string
  resourceID :: uint64

definition MetafieldPathPrefix :: "string \<Rightarrow> uint64 \<Rightarrow> string" where
  "MetafieldPathPrefix name n =
     Sprintf ''%s/%d/metafields'' [VString name, VUint n]"

definition MetafieldServiceOp_List ::
  "('c, 'o) MetafieldServiceOp \<Rightarrow> 'o option \<Rightarrow> 'c \<Rightarrow> (Metafield list \<times> error option) \<times> 'c" where
  "MetafieldServiceOp_List s options c =
     (let prefix = MetafieldPathPrefix (MetafieldServiceOp.resource s) (resourceID s);
          path = Sprintf ''%s.json'' [VString prefix];
          resource = new_MetafieldsResource;
          ((resource', err), c') =
             Get_MetafieldsResource (MetafieldServiceOp.client s) path resource options c
      in ((MetafieldsResource.Metafields resource', err), c'))"

definition MetafieldServiceOp_Count ::
  "('c, 'o) MetafieldServiceOp \<Rightarrow> 'o option \<Rightarrow> 'c \<Rightarrow> (int \<times> error option) \<times> 'c" where
  "MetafieldServiceOp_Count s options c =
     (let prefix = MetafieldPathPrefix (MetafieldServiceOp.resource s) (resourceID s);
          path = Sprintf ''%s/count.json'' [VString prefix]
      in Count (MetafieldServiceOp.client s) path options c)"

definition MetafieldServiceOp_Get ::
  "('c, 'o) MetafieldServiceOp \<Rightarrow> uint64 \<Rightarrow> 'o option \<Rightarrow> 'c
     \<Rightarrow> (Metafield option \<times> error option) \<times> 'c" where
  "MetafieldServiceOp_Get s metafieldID options c =
     (let prefix = MetafieldPathPrefix (MetafieldServiceOp.resource s) (resourceID s);
          path = Sprintf ''%s/%d.json'' [VString prefix, VUint metafieldID];
          resource = new_MetafieldResource;
          ((resource', err), c') =
             Get_MetafieldResource (MetafieldServiceOp.client s) path resource options c
      in ((Metafield resource', err), c'))"

definition MetafieldServiceOp_Create ::
  "('c, 'o) MetafieldServiceOp \<Rightarrow> Metafield \<Rightarrow> 'c \<Rightarrow> (Metafield option \<times> error option) \<times> 'c" where
  "MetafieldServiceOp_Create s metafield c =
     (let prefix = MetafieldPathPrefix (MetafieldServiceOp.resource s) (resourceID s);
          path = Sprintf ''%s.json'' [VString prefix];
          wrappedData = \<lparr>Metafield = Some metafield\<rparr>;
          resource = new_MetafieldResource;
          ((resource', err), c') =
             Post_MetafieldResource (MetafieldServiceOp.client s) path wrappedData resource c
      in ((Metafield resource', err), c'))"

definition MetafieldServiceOp_Update ::
  "('c, 'o) MetafieldServiceOp \<Rightarrow> Metafield \<Rightarrow> 'c \<Rightarrow> (Metafield option \<times> error option) \<times> 'c" where
  "MetafieldServiceOp_Update s metafield c =
     (let prefix = MetafieldPathPrefix (MetafieldServiceOp.resource s) (resourceID s);
          path = Sprintf ''%s/%d.json'' [VString prefix, VUint (Metafield.ID metafield)];
          wrappedData = \<lparr>Metafield = Some metafield\<rparr>;
          resource = new_MetafieldResource;
          ((resource', err), c') =
             Put_MetafieldResource (MetafieldServiceOp.client s) path wrappedData resource c
      in ((Metafield resource', err), c'))"

definition MetafieldServiceOp_Delete ::
  "('c, 'o) MetafieldServiceOp \<Rightarrow> uint64 \<Rightarrow> 'c \<Rightarrow> error option \<times> 'c" where
  "MetafieldServiceOp_Delete s metafieldID c =
     (let prefix = MetafieldPathPrefix (MetafieldServiceOp.resource s) (resourceID s)
      in Delete (MetafieldServiceOp.client s)
           (Sprintf ''%s/%d.json'' [VString prefix, VUint metafieldID]) c)"

section \<open>product.go\<close>

definition productsBasePath :: string where
  "productsBasePath = ''admin/products''"

definition productsResourceName :: string where
  "productsResourceName = ''products''"

record ('c, 'o) ProductServiceOp =
  client :: "('c, 'o) Client"

definition ProductServiceOp_List ::
  "('c, 'o) ProductServiceOp \<Rightarrow> 'o option \<Rightarrow> 'c \<Rightarrow> (Product list \<times> error option) \<times> 'c" where
  "ProductServiceOp_List s options c =
     (let path = Sprintf ''%s.json'' [VString productsBasePath];
          resource = new_ProductsResource;
          ((resource', err), c') =
             Get_ProductsResource (ProductServiceOp.client s) path resource options c
      in ((Products resource', err), c'))"

definition ProductServiceOp_Count ::
  "('c, 'o) ProductServiceOp \<Rightarrow> 'o option \<Rightarrow> 'c \<Rightarrow> (int \<times> error option) \<times> 'c" where
  "ProductServiceOp_Count s options c =
     (let path = Sprintf ''%s/count.json'' [VString productsBasePath]
      in Count (ProductServiceOp.client s) path options c)"

definition ProductServiceOp_Get ::
  "('c, 'o) ProductServiceOp \<Rightarrow> uint64 \<Rightarrow> 'o option \<Rightarrow> 'c
     \<Rightarrow> (Product option \<times> error option) \<times> 'c" where
  "ProductServiceOp_Get s productID options c =
     (let path = Sprintf ''%s/%d.json'' [VString productsBasePath, VUint productID];
          resource = new_ProductResource;
          ((resource', err), c') =
             Get_ProductResource (ProductServiceOp.client s) path resource options c
      in ((Product resource', err), c'))"

definition ProductServiceOp_Create ::
  "('c, 'o) ProductServiceOp \<Rightarrow> Product \<Rightarrow> 'c \<Rightarrow> (Product option \<times> error option) \<times> 'c" where
  "ProductServiceOp_Create s product c =
     (let path = Sprintf ''%s.json'' [VString productsBasePath];
          wrappedData = \<lparr>Product = Some product\<rparr>;
          resource = new_ProductResource;
          ((resource', err), c') =
             Post_ProductResource (ProductServiceOp.client s) path wrappedData resource c
      in ((Product resource', err), c'))"

definition ProductServiceOp_Update ::
  "('c, 'o) ProductServiceOp \<Rightarrow> Product \<Rightarrow> 'c \<Rightarrow> (Product option \<times> error option) \<times> 'c" where
  "ProductServiceOp_Update s product c =
     (let path = Sprintf ''%s/%d.json'' [VString productsBasePath, VUint (Product.ID product)];
          wrappedData = \<lparr>Product = Some product\<rparr>;
          resource = new_ProductResource;
          ((resource', err), c') =
             Put_ProductResource (ProductServiceOp.client s) path wrappedData resource c
      in ((Product resource', err), c'))"

definition ProductServiceOp_Delete ::
  "('c, 'o) ProductServiceOp \<Rightarrow> uint64 \<Rightarrow> 'c \<Rightarrow> error option \<times> 'c" where
  "ProductServiceOp_Delete s productID c =
     Delete (ProductServiceOp.client s)
       (Sprintf ''%s/%d.json'' [VString productsBasePath, VUint productID]) c"

definition ProductServiceOp_ListMetafields ::
  "('c, 'o) ProductServiceOp \<Rightarrow> uint64 \<Rightarrow> 'o option \<Rightarrow> 'c
     \<Rightarrow> (Metafield list \<times> error option) \<times> 'c" where
  "ProductServiceOp_ListMetafields s productID options c =
     (let metafieldService =
            \<lparr>MetafieldServiceOp.client = ProductServiceOp.client s,
             resource = productsResourceName, resourceID = productID\<rparr>
      in MetafieldServiceOp_List metafieldService options c)"

definition ProductServiceOp_CountMetafields ::
  "('c, 'o) ProductServiceOp \<Rightarrow> uint64 \<Rightarrow> 'o option \<Rightarrow> 'c \<Rightarrow> (int \<times> error option) \<times> 'c" where
  "ProductServiceOp_CountMetafields s productID options c =
     (let metafieldService =
            \<lparr>MetafieldServiceOp.client = ProductServiceOp.client s,
             resource = productsResourceName, resourceID = productID\<rparr>
      in MetafieldServiceOp_Count metafieldService options c)"

definition ProductServiceOp_GetMetafield ::
  "('c, 'o) ProductServiceOp \<Rightarrow> uint64 \<Rightarrow> uint64 \<Rightarrow> 'o option \<Rightarrow> 'c
     \<Rightarrow> (Metafield option \<times> error option) \<times> 'c" where
  "ProductServiceOp_GetMetafield s productID metafieldID options c =
     (let metafieldService =
            \<lparr>MetafieldServiceOp.client = ProductServiceOp.client s,
             resource = productsResourceName, resourceID = productID\<rparr>
      in MetafieldServiceOp_Get metafieldService metafieldID options c)"

definition ProductServiceOp_CreateMetafield ::
  "('c, 'o) ProductServiceOp \<Rightarrow> uint64 \<Rightarrow> Metafield \<Rightarrow> 'c
     \<Rightarrow> (Metafield option \<times> error option) \<times> 'c" where
  "ProductServiceOp_CreateMetafield s productID metafield c =
     (let metafieldService =
            \<lparr>MetafieldServiceOp.client = ProductServiceOp.client s,
             resource = productsResourceName, resourceID = productID\<rparr>
      in MetafieldServiceOp_Create metafieldService metafield c)"

definition ProductServiceOp_UpdateMetafield ::
  "('c, 'o) ProductServiceOp \<Rightarrow> uint64 \<Rightarrow> Metafield \<Rightarrow> 'c
     \<Rightarrow> (Metafield option \<times> error option) \<times> 'c" where
  "ProductServiceOp_UpdateMetafield s productID metafield c =
     (let metafieldService =
            \<lparr>MetafieldServiceOp.client = ProductServiceOp.client s,
             resource = productsResourceName, resourceID = productID\<rparr>
      in MetafieldServiceOp_Update metafieldService metafield c)"

definition ProductServiceOp_DeleteMetafield ::
  "('c, 'o) ProductServiceOp \<Rightarrow> uint64 \<Rightarrow> uint64 \<Rightarrow> 'c \<Rightarrow> error option \<times> 'c" where
  "ProductServiceOp_DeleteMetafield s productID metafieldID c =
     (let metafieldService =
            \<lparr>MetafieldServiceOp.client = ProductServiceOp.client s,
             resource = productsResourceName, resourceID = productID\<rparr>
      in MetafieldServiceOp_Delete metafieldService metafieldID c)"

section \<open>customer.go\<close>

definition customersBasePath :: string where
  "customersBasePath = ''admin/customers''"

definition customersResourceName :: string where
  "customersResourceName = ''customers''"

record ('c, 'o) CustomerServiceOp =
  client :: "('c, 'o) Client"

definition NewCustomerServiceOp :: "('c, 'o) Client \<Rightarrow> ('c, 'o) CustomerServiceOp" where
  "NewCustomerServiceOp cl = \<lparr>CustomerServiceOp.client = cl\<rparr>"

definition CustomerServiceOp_List ::
  "('c, 'o) CustomerServiceOp \<Rightarrow> 'o option \<Rightarrow> 'c \<Rightarrow> (Customer list \<times> error option) \<times> 'c" where
  "CustomerServiceOp_List s options c =
     (let path = Sprintf ''%s.json'' [VString customersBasePath];
          resource = new_CustomersResource;
          ((resource', err), c') =
             Get_CustomersResource (CustomerServiceOp.client s) path resource options c
      in ((Customers resource', err), c'))"

definition CustomerServiceOp_Count ::
  "('c, 'o) CustomerServiceOp \<Rightarrow> 'o option \<Rightarrow> 'c \<Rightarrow> (int \<times> error option) \<times> 'c" where
  "CustomerServiceOp_Count s options c =
     (let path = Sprintf ''%s/count.json'' [VString customersBasePath]
      in Count (CustomerServiceOp.client s) path options c)"

definition CustomerServiceOp_Get ::
  "('c, 'o) CustomerServiceOp \<Rightarrow> uint64 \<Rightarrow> 'o option \<Rightarrow> 'c
     \<Rightarrow> (Customer option \<times> error option) \<times> 'c" where
  "CustomerServiceOp_Get s customerID options c =
     (let path = Sprintf ''%s/%v.json'' [VString customersBasePath, VUint customerID];
          resource = new_CustomerResource;
          ((resource', err), c') =
             Get_CustomerResource (CustomerServiceOp.client s) path resource options c
      in ((Customer resource', err), c'))"

definition CustomerServiceOp_Create ::
  "('c, 'o) CustomerServiceOp \<Rightarrow> Customer \<Rightarrow> 'c \<Rightarrow> (Customer option \<times> error option) \<times> 'c" where
  "CustomerServiceOp_Create s customer c =
     (let path = Sprintf ''%s.json'' [VString customersBasePath];
          wrappedData = \<lparr>Customer = Some customer\<rparr>;
          resource = new_CustomerResource;
          ((resource', err), c') =
             Post_CustomerResource (CustomerServiceOp.client s) path wrappedData resource c
      in ((Customer resource', err), c'))"

definition CustomerServiceOp_Update ::
  "('c, 'o) CustomerServiceOp \<Rightarrow> Customer \<Rightarrow> 'c \<Rightarrow> (Customer option \<times> error option) \<times> 'c" where
  "CustomerServiceOp_Update s customer c =
     (let path = Sprintf ''%s/%d.json'' [VString customersBasePath, VUint (Customer.ID customer)];
          wrappedData = \<lparr>Customer = Some customer\<rparr>;
          resource = new_CustomerResource;
          ((resource', err), c') =
             Put_CustomerResource (CustomerServiceOp.client s) path wrappedData resource c
      in ((Customer resource', err), c'))"

definition CustomerServiceOp_Delete ::
  "('c, 'o) CustomerServiceOp \<Rightarrow> uint64 \<Rightarrow> 'c \<Rightarrow> error option \<times> 'c" where
  "CustomerServiceOp_Delete s customerID c =
     (let path = Sprintf ''%s/%d.json'' [VString customersBasePath, VUint customerID]
      in Delete (CustomerServiceOp.client s) path c)"

definition CustomerServiceOp_Search ::
  "('c, 'o) CustomerServiceOp \<Rightarrow> 'o option \<Rightarrow> 'c \<Rightarrow> (Customer list \<times> error option) \<times> 'c" where
  "CustomerServiceOp_Search s options c =
     (let path = Sprintf ''%s/search.json'' [VString customersBasePath];
          resource = new_CustomersResource;
          ((resource', err), c') =
             Get_CustomersResource (CustomerServiceOp.client s) path resource options c
      in ((Customers resource', err), c'))"

definition CustomerServiceOp_ListMetafields ::
  "('c, 'o) CustomerServiceOp \<Rightarrow> uint64 \<Rightarrow> 'o option \<Rightarrow> 'c
     \<Rightarrow> (Metafield list \<times> error option) \<times> 'c" where
  "CustomerServiceOp_ListMetafields s customerID options c =
     (let metafieldService =
            \<lparr>MetafieldServiceOp.client = CustomerServiceOp.client s,
             resource = customersResourceName, resourceID = customerID\<rparr>
      in MetafieldServiceOp_List metafieldService options c)"

definition CustomerServiceOp_CountMetafields ::
  "('c, 'o) CustomerServiceOp \<Rightarrow> uint64 \<Rightarrow> 'o option \<Rightarrow> 'c \<Rightarrow> (int \<times> error option) \<times> 'c" where
  "CustomerServiceOp_CountMetafields s customerID options c =
     (let metafieldService =
            \<lparr>MetafieldServiceOp.client = CustomerServiceOp.client s,
             resource = customersResourceName, resourceID = customerID\<rparr>
      in MetafieldServiceOp_Count metafieldService options c)"

definition CustomerServiceOp_GetMetafield ::
  "('c, 'o) CustomerServiceOp \<Rightarrow> uint64 \<Rightarrow> uint64 \<Rightarrow> 'o option \<Rightarrow> 'c
     \<Rightarrow> (Metafield option \<times> error option) \<times> 'c" where
  "CustomerServiceOp_GetMetafield s customerID metafieldID options c =
     (let metafieldService =
            \<lparr>MetafieldServiceOp.client = CustomerServiceOp.client s,
             resource = customersResourceName, resourceID = customerID\<rparr>
      in MetafieldServiceOp_Get metafieldService metafieldID options c)"

definition CustomerServiceOp_CreateMetafield ::
  "('c, 'o) CustomerServiceOp \<Rightarrow> uint64 \<Rightarrow> Metafield \<Rightarrow> 'c
     \<Rightarrow> (Metafield option \<times> error option) \<times> 'c" where
  "CustomerServiceOp_CreateMetafield s customerID metafield c =
     (let metafieldService =
            \<lparr>MetafieldServiceOp.client = CustomerServiceOp.client s,
             resource = customersResourceName, resourceID = customerID\<rparr>
      in MetafieldServiceOp_Create metafieldService metafield c)"

definition CustomerServiceOp_UpdateMetafield ::
  "('c, 'o) CustomerServiceOp \<Rightarrow> uint64 \<Rightarrow> Metafield \<Rightarrow> 'c
     \<Rightarrow> (Metafield option \<times> error option) \<times> 'c" where
  "CustomerServiceOp_UpdateMetafield s customerID metafield c =
     (let metafieldService =
            \<lparr>MetafieldServiceOp.client = CustomerServiceOp.client s,
             resource = customersResourceName, resourceID = customerID\<rparr>
      in MetafieldServiceOp_Update metafieldService metafield c)"

definition CustomerServiceOp_DeleteMetafield ::
  "('c, 'o) CustomerServiceOp \<Rightarrow> uint64 \<Rightarrow> uint64 \<Rightarrow> 'c \<Rightarrow> error option \<times> 'c" where
  "CustomerServiceOp_DeleteMetafield s customerID metafieldID c =
     (let metafieldService =
            \<lparr>MetafieldServiceOp.client = CustomerServiceOp.client s,
             resource = customersResourceName, resourceID = customerID\<rparr>
      in MetafieldServiceOp_Delete metafieldService metafieldID c)"

text \<open>
  \<^verbatim>\<open>Get\<close> of a customer builds its path with the verb \<^verbatim>\<open>%v\<close>; \<^verbatim>\<open>Delete\<close> and \<^verbatim>\<open>Update\<close>,
  and every product operation, use \<^verbatim>\<open>%d\<close>. The variant of \<^verbatim>\<open>Get\<close> with \<^verbatim>\<open>%d\<close>, for
  comparison:
\<close>

definition CustomerServiceOp_Get_d ::
  "('c, 'o) CustomerServiceOp \<Rightarrow> uint64 \<Rightarrow> 'o option \<Rightarrow> 'c
     \<Rightarrow> (Customer option \<times> error option) \<times> 'c" where
  "CustomerServiceOp_Get_d s customerID options c =
     (let path = Sprintf ''%s/%d.json'' [VString customersBasePath, VUint customerID];
          resource = new_CustomerResource;
          ((resource', err), c') =
             Get_CustomerResource (CustomerServiceOp.client s) path resource options c
      in ((Customer resource', err), c'))"

section \<open>Clients for testing\<close>

text \<open>
  A client whose state is the list of the calls made on it so far. \<open>answering e n\<close>
  answers every call with the error \<open>e\<close> (\<open>None\<close>: success) and leaves the envelope as it
  received it; its count is \<open>n\<close>. Its query options are nil.
\<close>

datatype call =
    GetCall string
  | PostCall string
  | PutCall string
  | DeleteCall string
  | CountCall string

definition answering :: "error option \<Rightarrow> int \<Rightarrow> (call list, unit) Client" where
  "answering e n =
     \<lparr>Get_ProductResource = (\<lambda>path resource options c. ((resource, e), c @ [GetCall path])),
      Get_ProductsResource = (\<lambda>path resource options c. ((resource, e), c @ [GetCall path])),
      Get_CustomerResource = (\<lambda>path resource options c. ((resource, e), c @ [GetCall path])),
      Get_CustomersResource = (\<lambda>path resource options c. ((resource, e), c @ [GetCall path])),
      Get_MetafieldResource = (\<lambda>path resource options c. ((resource, e), c @ [GetCall path])),
      Get_MetafieldsResource = (\<lambda>path resource options c. ((resource, e), c @ [GetCall path])),
      Post_ProductResource = (\<lambda>path data resource c. ((resource, e), c @ [PostCall path])),
      Post_CustomerResource = (\<lambda>path data resource c. ((resource, e), c @ [PostCall path])),
      Post_MetafieldResource = (\<lambda>path data resource c. ((resource, e), c @ [PostCall path])),
      Put_ProductResource = (\<lambda>path data resource c. ((resource, e), c @ [PutCall path])),
      Put_CustomerResource = (\<lambda>path data resource c. ((resource, e), c @ [PutCall path])),
      Put_MetafieldResource = (\<lambda>path data resource c. ((resource, e), c @ [PutCall path])),
      Delete = (\<lambda>path c. (e, c @ [DeleteCall path])),
      Count = (\<lambda>path options c. ((n, e), c @ [CountCall path]))\<rparr>"

text \<open>
  A server that stores what is posted and put, and echoes it: the response envelope holds
  the entity of the request.
\<close>

definition echoing :: "(call list, unit) Client" where
  "echoing =
     (answering None 0)
       \<lparr>Post_ProductResource := (\<lambda>path data resource c. ((data, None), c @ [PostCall path])),
        Post_CustomerResource := (\<lambda>path data resource c. ((data, None), c @ [PostCall path])),
        Put_ProductResource := (\<lambda>path data resource c. ((data, None), c @ [PutCall path])),
        Put_CustomerResource := (\<lambda>path data resource c. ((data, None), c @ [PutCall path]))\<rparr>"

text \<open>
  A client whose \<^verbatim>\<open>Get\<close> decodes a product and a customer list into the envelope and
  then fails, as a decoder does that meets a malformed field after well-formed ones.
\<close>

definition half_decoding :: "Product \<Rightarrow> Customer list \<Rightarrow> error \<Rightarrow> (call list, unit) Client" where
  "half_decoding p cs e =
     (answering (Some e) 0)
       \<lparr>Get_ProductResource :=
          (\<lambda>path resource options c. ((resource\<lparr>Product := Some p\<rparr>, Some e), c @ [GetCall path])),
        Get_CustomersResource :=
          (\<lambda>path resource options c. ((resource\<lparr>Customers := cs\<rparr>, Some e), c @ [GetCall path]))\<rparr>"

text \<open>A server whose only count is 7, of the products.\<close>

definition counting :: "(call list, unit) Client" where
  "counting =
     (answering None 0)
       \<lparr>Count :=
          (\<lambda>path options c.
             (if path = ''admin/products/count.json'' then (7, None)
              else (0, Some (Error ''Not Found'')), c @ [CountCall path]))\<rparr>"

text \<open>The values used in the examples.\<close>

definition accepting :: "(call list, unit) Client" where
  "accepting = answering None 0"

definition timing_out :: "(call list, unit) Client" where
  "timing_out = answering (Some (Error ''timeout'')) 0"

definition mug :: Product where
  "mug = (Product_zero (VStruct []))\<lparr>Product.ID := 7, Title := ''Mug''\<rparr>"

definition ada :: Customer where
  "ada = Customer_zero\<lparr>Customer.ID := 7, FirstName := ''Ada''\<rparr>"

definition colour :: Metafield where
  "colour = \<lparr>Metafield.ID = 7, Key = ''colour'', Val = ''red''\<rparr>"

section \<open>Lemmas\<close>

subsection \<open>Decimal numerals\<close>

lemma byte_digit_table: "\<forall>d \<in> set [0..<10]. char_of (48 + d :: nat) = ldigits ! d"
  by code_simp

lemma byte_digit: "d < 10 \<Longrightarrow> char_of (48 + d :: nat) = ldigits ! d"
  using byte_digit_table by simp

lemma fmtInteger_step:
  "10 \<le> u \<Longrightarrow> fmtInteger u buf = fmtInteger (u div 10) (ldigits ! (u mod 10) # buf)"
proof -
  assume u: "10 \<le> u"
  have "48 + u - u div 10 * 10 = 48 + u mod 10"
    by (simp add: minus_mult_div_eq_mod [symmetric] algebra_simps)
  then show ?thesis
    using u by (subst fmtInteger.simps) (simp add: Let_def byte_digit)
qed

lemma fmtInteger_small: "u < 10 \<Longrightarrow> fmtInteger u buf = ldigits ! u # buf"
  by (subst fmtInteger.simps) simp

lemma fmtInteger_append: "fmtInteger u buf = fmtInteger u [] @ buf"
proof (induction u arbitrary: buf rule: less_induct)
  case (less u)
  show ?case
  proof (cases "10 \<le> u")
    case True
    then have lt: "u div 10 < u" by simp
    show ?thesis
      using less [OF lt, of "ldigits ! (u mod 10) # buf"] less [OF lt, of "[ldigits ! (u mod 10)]"]
      by (simp add: fmtInteger_step [OF True])
  next
    case False
    then show ?thesis by (simp add: fmtInteger_small)
  qed
qed

lemma digit_value_ldigits_table: "\<forall>d \<in> set [0..<10]. digit_value (ldigits ! d) = d"
  by code_simp

lemma digit_value_ldigits: "d < 10 \<Longrightarrow> digit_value (ldigits ! d) = d"
  using digit_value_ldigits_table by simp

lemma is_digit_ldigits_table: "\<forall>d \<in> set [0..<10]. is_digit (ldigits ! d)"
  by code_simp

lemma is_digit_ldigits: "d < 10 \<Longrightarrow> is_digit (ldigits ! d)"
  using is_digit_ldigits_table by simp

lemma decimal_value_snoc: "decimal_value (s @ [c]) = 10 * decimal_value s + digit_value c"
  by (simp add: decimal_value_def)

lemma decimal_value_fmtInteger: "decimal_value (fmtInteger u []) = u"
proof (induction u rule: less_induct)
  case (less u)
  show ?case
  proof (cases "10 \<le> u")
    case True
    then have lt: "u div 10 < u" by simp
    have "fmtInteger u [] = fmtInteger (u div 10) [] @ [ldigits ! (u mod 10)]"
      using fmtInteger_append [of "u div 10" "[ldigits ! (u mod 10)]"]
      by (simp add: fmtInteger_step [OF True])
    then show ?thesis
      using less [OF lt] by (simp add: decimal_value_snoc digit_value_ldigits)
  next
    case False
    then show ?thesis
      by (simp add: fmtInteger_small decimal_value_def digit_value_ldigits)
  qed
qed

lemma digits_fmtInteger: "list_all is_digit (fmtInteger u [])"
proof (induction u rule: less_induct)
  case (less u)
  show ?case
  proof (cases "10 \<le> u")
    case True
    then have lt: "u div 10 < u" by simp
    have "fmtInteger u [] = fmtInteger (u div 10) [] @ [ldigits ! (u mod 10)]"
      using fmtInteger_append [of "u div 10" "[ldigits ! (u mod 10)]"]
      by (simp add: fmtInteger_step [OF True])
    then show ?thesis
      using less [OF lt] by (simp add: is_digit_ldigits)
  next
    case False
    then show ?thesis
      by (simp add: fmtInteger_small is_digit_ldigits)
  qed
qed

lemma fmtInteger_max: "fmtInteger 18446744073709551615 [] = ''18446744073709551615''"
  by (simp add: fmtInteger_step fmtInteger_small ldigits_def)

lemma fmtInteger_7: "fmtInteger 7 [] = ''7''"
  by (simp add: fmtInteger_small ldigits_def)

lemma fmtInteger_0: "fmtInteger 0 [] = ''0''"
  by (simp add: fmtInteger_small ldigits_def)

lemma fmtInteger_42: "fmtInteger 42 [] = ''42''"
  by (simp add: fmtInteger_step fmtInteger_small ldigits_def)

subsection \<open>The paths\<close>

lemma Sprintf_s_json: "Sprintf ''%s.json'' [VString b] = b @ ''.json''"
  by (simp add: Sprintf_def pp_fmtString_def)

lemma Sprintf_s_count_json: "Sprintf ''%s/count.json'' [VString b] = b @ ''/count.json''"
  by (simp add: Sprintf_def pp_fmtString_def)

lemma Sprintf_s_search_json: "Sprintf ''%s/search.json'' [VString b] = b @ ''/search.json''"
  by (simp add: Sprintf_def pp_fmtString_def)

lemma Sprintf_s_d_json:
  "Sprintf ''%s/%d.json'' [VString b, VUint n] = b @ ''/'' @ fmtInteger (unat n) [] @ ''.json''"
  by (simp add: Sprintf_def pp_fmtString_def pp_fmtInteger_def)

lemma Sprintf_s_v_json:
  "Sprintf ''%s/%v.json'' [VString b, VUint n] = b @ ''/'' @ fmtInteger (unat n) [] @ ''.json''"
  by (simp add: Sprintf_def pp_fmtString_def pp_fmtInteger_def)

lemma MetafieldPathPrefix_eq:
  "MetafieldPathPrefix b n = b @ ''/'' @ fmtInteger (unat n) [] @ ''/metafields''"
  by (simp add: MetafieldPathPrefix_def Sprintf_def pp_fmtString_def pp_fmtInteger_def)

lemmas paths = Sprintf_s_json Sprintf_s_count_json Sprintf_s_search_json Sprintf_s_d_json
  Sprintf_s_v_json MetafieldPathPrefix_eq productsBasePath_def customersBasePath_def
  productsResourceName_def customersResourceName_def

lemmas news = new_ProductResource_def new_ProductsResource_def new_CustomerResource_def
  new_CustomersResource_def new_MetafieldResource_def new_MetafieldsResource_def

subsection \<open>Every operation is one call of a client primitive\<close>

lemma ProductServiceOp_List_call:
  "ProductServiceOp_List s options c =
     (case Get_ProductsResource (ProductServiceOp.client s) ''admin/products.json''
             \<lparr>Products = []\<rparr> options c of
        ((r, err), c') \<Rightarrow> ((Products r, err), c'))"
  by (simp add: ProductServiceOp_List_def paths news split: prod.splits)

lemma ProductServiceOp_Count_call:
  "ProductServiceOp_Count s options c =
     Count (ProductServiceOp.client s) ''admin/products/count.json'' options c"
  by (simp add: ProductServiceOp_Count_def paths)

lemma ProductServiceOp_Get_call:
  "ProductServiceOp_Get s n options c =
     (case Get_ProductResource (ProductServiceOp.client s)
             (''admin/products/'' @ fmtInteger (unat n) [] @ ''.json'')
             \<lparr>Product = None\<rparr> options c of
        ((r, err), c') \<Rightarrow> ((Product r, err), c'))"
  by (simp add: ProductServiceOp_Get_def paths news split: prod.splits)

lemma ProductServiceOp_Create_call:
  "ProductServiceOp_Create s product c =
     (case Post_ProductResource (ProductServiceOp.client s) ''admin/products.json''
             \<lparr>Product = Some product\<rparr> \<lparr>Product = None\<rparr> c of
        ((r, err), c') \<Rightarrow> ((Product r, err), c'))"
  by (simp add: ProductServiceOp_Create_def paths news split: prod.splits)

lemma ProductServiceOp_Update_call:
  "ProductServiceOp_Update s product c =
     (case Put_ProductResource (ProductServiceOp.client s)
             (''admin/products/'' @ fmtInteger (unat (Product.ID product)) [] @ ''.json'')
             \<lparr>Product = Some product\<rparr> \<lparr>Product = None\<rparr> c of
        ((r, err), c') \<Rightarrow> ((Product r, err), c'))"
  by (simp add: ProductServiceOp_Update_def paths news split: prod.splits)

lemma ProductServiceOp_Delete_call:
  "ProductServiceOp_Delete s n c =
     Delete (ProductServiceOp.client s)
       (''admin/products/'' @ fmtInteger (unat n) [] @ ''.json'') c"
  by (simp add: ProductServiceOp_Delete_def paths)

lemma CustomerServiceOp_List_call:
  "CustomerServiceOp_List s options c =
     (case Get_CustomersResource (CustomerServiceOp.client s) ''admin/customers.json''
             \<lparr>Customers = []\<rparr> options c of
        ((r, err), c') \<Rightarrow> ((Customers r, err), c'))"
  by (simp add: CustomerServiceOp_List_def paths news split: prod.splits)

lemma CustomerServiceOp_Search_call:
  "CustomerServiceOp_Search s options c =
     (case Get_CustomersResource (CustomerServiceOp.client s) ''admin/customers/search.json''
             \<lparr>Customers = []\<rparr> options c of
        ((r, err), c') \<Rightarrow> ((Customers r, err), c'))"
  by (simp add: CustomerServiceOp_Search_def paths news split: prod.splits)

lemma CustomerServiceOp_Count_call:
  "CustomerServiceOp_Count s options c =
     Count (CustomerServiceOp.client s) ''admin/customers/count.json'' options c"
  by (simp add: CustomerServiceOp_Count_def paths)

lemma CustomerServiceOp_Get_call:
  "CustomerServiceOp_Get s n options c =
     (case Get_CustomerResource (CustomerServiceOp.client s)
             (''admin/customers/'' @ fmtInteger (unat n) [] @ ''.json'')
             \<lparr>Customer = None\<rparr> options c of
        ((r, err), c') \<Rightarrow> ((Customer r, err), c'))"
  by (simp add: CustomerServiceOp_Get_def paths news split: prod.splits)

lemma CustomerServiceOp_Get_d_call:
  "CustomerServiceOp_Get_d s n options c =
     (case Get_CustomerResource (CustomerServiceOp.client s)
             (''admin/customers/'' @ fmtInteger (unat n) [] @ ''.json'')
             \<lparr>Customer = None\<rparr> options c of
        ((r, err), c') \<Rightarrow> ((Customer r, err), c'))"
  by (simp add: CustomerServiceOp_Get_d_def paths news split: prod.splits)

lemma CustomerServiceOp_Create_call:
  "CustomerServiceOp_Create s customer c =
     (case Post_CustomerResource (CustomerServiceOp.client s) ''admin/customers.json''
             \<lparr>Customer = Some customer\<rparr> \<lparr>Customer = None\<rparr> c of
        ((r, err), c') \<Rightarrow> ((Customer r, err), c'))"
  by (simp add: CustomerServiceOp_Create_def paths news split: prod.splits)

lemma CustomerServiceOp_Update_call:
  "CustomerServiceOp_Update s customer c =
     (case Put_CustomerResource (CustomerServiceOp.client s)
             (''admin/customers/'' @ fmtInteger (unat (Customer.ID customer)) [] @ ''.json'')
             \<lparr>Customer = Some customer\<rparr> \<lparr>Customer = None\<rparr> c of
        ((r, err), c') \<Rightarrow> ((Customer r, err), c'))"
  by (simp add: CustomerServiceOp_Update_def paths news split: prod.splits)

lemma CustomerServiceOp_Delete_call:
  "CustomerServiceOp_Delete s n c =
     Delete (CustomerServiceOp.client s)
       (''admin/customers/'' @ fmtInteger (unat n) [] @ ''.json'') c"
  by (simp add: CustomerServiceOp_Delete_def paths)

subsection \<open>The clients of the examples\<close>

lemma answering_calls:
  "Get_ProductResource (answering e n) path r1 options c = ((r1, e), c @ [GetCall path])"
  "Get_ProductsResource (answering e n) path r2 options c = ((r2, e), c @ [GetCall path])"
  "Get_CustomerResource (answering e n) path r3 options c = ((r3, e), c @ [GetCall path])"
  "Get_CustomersResource (answering e n) path r4 options c = ((r4, e), c @ [GetCall path])"
  "Get_MetafieldResource (answering e n) path r5 options c = ((r5, e), c @ [GetCall path])"
  "Get_MetafieldsResource (answering e n) path r6 options c = ((r6, e), c @ [GetCall path])"
  "Post_ProductResource (answering e n) path d7 r7 c = ((r7, e), c @ [PostCall path])"
  "Post_CustomerResource (answering e n) path d8 r8 c = ((r8, e), c @ [PostCall path])"
  "Post_MetafieldResource (answering e n) path d9 r9 c = ((r9, e), c @ [PostCall path])"
  "Put_ProductResource (answering e n) path d10 r10 c = ((r10, e), c @ [PutCall path])"
  "Put_CustomerResource (answering e n) path d11 r11 c = ((r11, e), c @ [PutCall path])"
  "Put_MetafieldResource (answering e n) path d12 r12 c = ((r12, e), c @ [PutCall path])"
  "Delete (answering e n) path c = (e, c @ [DeleteCall path])"
  "Count (answering e n) path options c = ((n, e), c @ [CountCall path])"
  by (simp_all add: answering_def)

lemma echoing_calls:
  "Post_ProductResource echoing path d13 r13 c = ((d13, None), c @ [PostCall path])"
  "Post_CustomerResource echoing path d14 r14 c = ((d14, None), c @ [PostCall path])"
  "Put_ProductResource echoing path d15 r15 c = ((d15, None), c @ [PutCall path])"
  "Put_CustomerResource echoing path d16 r16 c = ((d16, None), c @ [PutCall path])"
  by (simp_all add: echoing_def)

lemma half_decoding_calls:
  "Get_ProductResource (half_decoding p cs e) path r options c =
     ((r\<lparr>Product := Some p\<rparr>, Some e), c @ [GetCall path])"
  "Get_CustomersResource (half_decoding p cs e) path r' options c =
     ((r'\<lparr>Customers := cs\<rparr>, Some e), c @ [GetCall path])"
  by (simp_all add: half_decoding_def)

lemma counting_calls:
  "Count counting path options c =
     (if path = ''admin/products/count.json'' then (7, None)
      else (0, Some (Error ''Not Found'')), c @ [CountCall path])"
  by (simp add: counting_def)

lemma envelope_keys:
  "Marshal_keys (ProductResource_Value r) = [''product'']"
  "Marshal_keys (CustomerResource_Value r') = [''customer'']"
  by (simp_all add: ProductResource_Value_def CustomerResource_Value_def written_def
      tag_name_def tag_omitEmpty_def)

lemmas calls = ProductServiceOp_List_call ProductServiceOp_Count_call ProductServiceOp_Get_call
      ProductServiceOp_Create_call ProductServiceOp_Update_call ProductServiceOp_Delete_call
      CustomerServiceOp_List_call CustomerServiceOp_Count_call CustomerServiceOp_Get_call
      CustomerServiceOp_Create_call CustomerServiceOp_Update_call CustomerServiceOp_Delete_call
      CustomerServiceOp_Search_call

lemma fixture_IDs: "Product.ID mug = 7" "Customer.ID ada = 7"
  by (simp_all add: mug_def ada_def)

lemma zero_IDs: "Product.ID (Product_zero img) = 0" "Customer.ID Customer_zero = 0"
  by (simp_all add: Product_zero_def Customer_zero_def)

subsection \<open>The metafield helper\<close>

lemma MetafieldServiceOp_List_call:
  "MetafieldServiceOp_List s options c =
     (case Get_MetafieldsResource (MetafieldServiceOp.client s)
             (MetafieldServiceOp.resource s @ ''/'' @ fmtInteger (unat (resourceID s)) [] @
              ''/metafields.json'')
             \<lparr>MetafieldsResource.Metafields = []\<rparr> options c of
        ((r, err), c') \<Rightarrow> ((MetafieldsResource.Metafields r, err), c'))"
  by (simp add: MetafieldServiceOp_List_def paths news split: prod.splits)

lemma MetafieldServiceOp_Count_call:
  "MetafieldServiceOp_Count s options c =
     Count (MetafieldServiceOp.client s)
       (MetafieldServiceOp.resource s @ ''/'' @ fmtInteger (unat (resourceID s)) [] @
        ''/metafields/count.json'') options c"
  by (simp add: MetafieldServiceOp_Count_def paths news)

lemma MetafieldServiceOp_Get_call:
  "MetafieldServiceOp_Get s m options c =
     (case Get_MetafieldResource (MetafieldServiceOp.client s)
             (MetafieldServiceOp.resource s @ ''/'' @ fmtInteger (unat (resourceID s)) [] @
              ''/metafields/'' @ fmtInteger (unat m) [] @ ''.json'')
             \<lparr>Metafield = None\<rparr> options c of
        ((r, err), c') \<Rightarrow> ((Metafield r, err), c'))"
  by (simp add: MetafieldServiceOp_Get_def paths news split: prod.splits)

lemma MetafieldServiceOp_Create_call:
  "MetafieldServiceOp_Create s metafield c =
     (case Post_MetafieldResource (MetafieldServiceOp.client s)
             (MetafieldServiceOp.resource s @ ''/'' @ fmtInteger (unat (resourceID s)) [] @
              ''/metafields.json'')
             \<lparr>Metafield = Some metafield\<rparr> \<lparr>Metafield = None\<rparr> c of
        ((r, err), c') \<Rightarrow> ((Metafield r, err), c'))"
  by (simp add: MetafieldServiceOp_Create_def paths news split: prod.splits)

lemma MetafieldServiceOp_Update_call:
  "MetafieldServiceOp_Update s metafield c =
     (case Put_MetafieldResource (MetafieldServiceOp.client s)
             (MetafieldServiceOp.resource s @ ''/'' @ fmtInteger (unat (resourceID s)) [] @
              ''/metafields/'' @ fmtInteger (unat (Metafield.ID metafield)) [] @ ''.json'')
             \<lparr>Metafield = Some metafield\<rparr> \<lparr>Metafield = None\<rparr> c of
        ((r, err), c') \<Rightarrow> ((Metafield r, err), c'))"
  by (simp add: MetafieldServiceOp_Update_def paths news split: prod.splits)

lemma MetafieldServiceOp_Delete_call:
  "MetafieldServiceOp_Delete s m c =
     Delete (MetafieldServiceOp.client s)
       (MetafieldServiceOp.resource s @ ''/'' @ fmtInteger (unat (resourceID s)) [] @
        ''/metafields/'' @ fmtInteger (unat m) [] @ ''.json'') c"
  by (simp add: MetafieldServiceOp_Delete_def paths news)

lemmas metafield_calls = MetafieldServiceOp_List_call MetafieldServiceOp_Count_call
  MetafieldServiceOp_Get_call MetafieldServiceOp_Create_call MetafieldServiceOp_Update_call
  MetafieldServiceOp_Delete_call

lemmas delegations = ProductServiceOp_ListMetafields_def ProductServiceOp_CountMetafields_def
  ProductServiceOp_GetMetafield_def ProductServiceOp_CreateMetafield_def
  ProductServiceOp_UpdateMetafield_def ProductServiceOp_DeleteMetafield_def
  CustomerServiceOp_ListMetafields_def CustomerServiceOp_CountMetafields_def
  CustomerServiceOp_GetMetafield_def CustomerServiceOp_CreateMetafield_def
  CustomerServiceOp_UpdateMetafield_def CustomerServiceOp_DeleteMetafield_def

section \<open>The claims\<close>

text \<open>
  C1. For every id, the item-scoped operations build the item path from the collection
  base and the decimal id: Get and Delete of a product target
  \<^verbatim>\<open>admin/products/<id>.json\<close>, Get and Delete of a customer target
  \<^verbatim>\<open>admin/customers/<id>.json\<close>, and Delete is exactly one call of the client's Delete
  with that path: on a client that records its calls, one \<open>DeleteCall\<close> is added. The id
  is written as its decimal numeral: digits only, with the id as their value.
\<close>

theorem item_paths:
  "ProductServiceOp_Get s n options c =
     (case Get_ProductResource (ProductServiceOp.client s)
             (''admin/products/'' @ fmtInteger (unat n) [] @ ''.json'')
             \<lparr>Product = None\<rparr> options c of
        ((r, err), c') \<Rightarrow> ((Product r, err), c'))
   \<and> ProductServiceOp_Delete s n c =
     Delete (ProductServiceOp.client s)
       (''admin/products/'' @ fmtInteger (unat n) [] @ ''.json'') c
   \<and> CustomerServiceOp_Get t n options c =
     (case Get_CustomerResource (CustomerServiceOp.client t)
             (''admin/customers/'' @ fmtInteger (unat n) [] @ ''.json'')
             \<lparr>Customer = None\<rparr> options c of
        ((r, err), c') \<Rightarrow> ((Customer r, err), c'))
   \<and> CustomerServiceOp_Delete t n c =
     Delete (CustomerServiceOp.client t)
       (''admin/customers/'' @ fmtInteger (unat n) [] @ ''.json'') c
   \<and> snd (ProductServiceOp_Delete \<lparr>ProductServiceOp.client = (answering e k)\<rparr> n calls) =
     calls @ [DeleteCall (''admin/products/'' @ fmtInteger (unat n) [] @ ''.json'')]
   \<and> snd (CustomerServiceOp_Delete \<lparr>CustomerServiceOp.client = (answering e k)\<rparr> n calls) =
     calls @ [DeleteCall (''admin/customers/'' @ fmtInteger (unat n) [] @ ''.json'')]
   \<and> list_all is_digit (fmtInteger (unat n) [])
   \<and> decimal_value (fmtInteger (unat n) []) = unat n"
  by (simp add: ProductServiceOp_Get_call ProductServiceOp_Delete_call CustomerServiceOp_Get_call
      CustomerServiceOp_Delete_call answering_calls digits_fmtInteger decimal_value_fmtInteger)

theorem item_paths_witness:
  "ProductServiceOp_Get \<lparr>ProductServiceOp.client = accepting\<rparr> 42 None [] =
     ((None, None), [GetCall ''admin/products/42.json''])
   \<and> ProductServiceOp_Delete \<lparr>ProductServiceOp.client = accepting\<rparr> 42 [] =
     (None, [DeleteCall ''admin/products/42.json''])
   \<and> CustomerServiceOp_Get \<lparr>CustomerServiceOp.client = accepting\<rparr> 42 None [] =
     ((None, None), [GetCall ''admin/customers/42.json''])
   \<and> CustomerServiceOp_Delete \<lparr>CustomerServiceOp.client = accepting\<rparr> 42 [] =
     (None, [DeleteCall ''admin/customers/42.json''])"
  using item_paths [of "\<lparr>ProductServiceOp.client = accepting\<rparr>" 42 None "[]"
      "\<lparr>CustomerServiceOp.client = accepting\<rparr>" None 0 "[]"]
  by (simp add: accepting_def answering_calls fmtInteger_42)

text \<open>
  C2, as stated, fails. The operations return the field of the envelope as the client left
  it, whatever the error: with a client whose Get fills the envelope and then reports an
  error, Get of a product returns that product together with the error, and List of the
  customers returns a non-empty list together with the error.
\<close>

theorem failure_with_result_counterexample:
  "ProductServiceOp_Get
     \<lparr>ProductServiceOp.client = half_decoding mug [ada] (Error ''unexpected EOF'')\<rparr>
     7 None [] =
     ((Some mug, Some (Error ''unexpected EOF'')), [GetCall ''admin/products/7.json''])
   \<and> CustomerServiceOp_List
     \<lparr>CustomerServiceOp.client = half_decoding mug [ada] (Error ''unexpected EOF'')\<rparr>
     None [] =
     (([ada], Some (Error ''unexpected EOF'')), [GetCall ''admin/customers.json''])"
  by (simp add: ProductServiceOp_Get_call CustomerServiceOp_List_call half_decoding_calls
      fmtInteger_7)

text \<open>
  C2, amended. Every operation of the two clients that returns an entity or a sequence
  (List, Get, Create, Update, Search) returns the field of the envelope as its one call of
  the client primitive left it, together with the error of that call, whatever the error:
  there is no guard. So when that call, if it returns a non-nil error, leaves the envelope
  as it received it, an operation that returns a non-nil error returns the zero value (nil,
  or empty) with it. Nothing is asked of the client beyond that one call.
\<close>

theorem failure_gives_zero:
  "ProductServiceOp_List s options c =
     (case Get_ProductsResource (ProductServiceOp.client s)
             ''admin/products.json''
             \<lparr>Products = []\<rparr> options c of
        ((r, err), c') \<Rightarrow> ((Products r, err), c'))
   \<and> ((snd (fst (Get_ProductsResource (ProductServiceOp.client s)
                 ''admin/products.json''
                 \<lparr>Products = []\<rparr> options c)) \<noteq> None \<longrightarrow>
      fst (fst (Get_ProductsResource (ProductServiceOp.client s)
                 ''admin/products.json''
                 \<lparr>Products = []\<rparr> options c)) =
        \<lparr>Products = []\<rparr>) \<longrightarrow>
    (snd (fst (ProductServiceOp_List s options c)) \<noteq> None \<longrightarrow>
      fst (fst (ProductServiceOp_List s options c)) = []))
   \<and> ProductServiceOp_Get s n options c =
     (case Get_ProductResource (ProductServiceOp.client s)
             (''admin/products/'' @ fmtInteger (unat n) [] @ ''.json'')
             \<lparr>Product = None\<rparr> options c of
        ((r, err), c') \<Rightarrow> ((Product r, err), c'))
   \<and> ((snd (fst (Get_ProductResource (ProductServiceOp.client s)
                 (''admin/products/'' @ fmtInteger (unat n) [] @ ''.json'')
                 \<lparr>Product = None\<rparr> options c)) \<noteq> None \<longrightarrow>
      fst (fst (Get_ProductResource (ProductServiceOp.client s)
                 (''admin/products/'' @ fmtInteger (unat n) [] @ ''.json'')
                 \<lparr>Product = None\<rparr> options c)) =
        \<lparr>Product = None\<rparr>) \<longrightarrow>
    (snd (fst (ProductServiceOp_Get s n options c)) \<noteq> None \<longrightarrow>
      fst (fst (ProductServiceOp_Get s n options c)) = None))
   \<and> ProductServiceOp_Create s product c =
     (case Post_ProductResource (ProductServiceOp.client s)
             ''admin/products.json''
             \<lparr>Product = Some product\<rparr> \<lparr>Product = None\<rparr> c of
        ((r, err), c') \<Rightarrow> ((Product r, err), c'))
   \<and> ((snd (fst (Post_ProductResource (ProductServiceOp.client s)
                 ''admin/products.json''
                 \<lparr>Product = Some product\<rparr> \<lparr>Product = None\<rparr> c)) \<noteq> None \<longrightarrow>
      fst (fst (Post_ProductResource (ProductServiceOp.client s)
                 ''admin/products.json''
                 \<lparr>Product = Some product\<rparr> \<lparr>Product = None\<rparr> c)) =
        \<lparr>Product = None\<rparr>) \<longrightarrow>
    (snd (fst (ProductServiceOp_Create s product c)) \<noteq> None \<longrightarrow>
      fst (fst (ProductServiceOp_Create s product c)) = None))
   \<and> ProductServiceOp_Update s product c =
     (case Put_ProductResource (ProductServiceOp.client s)
             (''admin/products/'' @ fmtInteger (unat (Product.ID product)) [] @ ''.json'')
             \<lparr>Product = Some product\<rparr> \<lparr>Product = None\<rparr> c of
        ((r, err), c') \<Rightarrow> ((Product r, err), c'))
   \<and> ((snd (fst (Put_ProductResource (ProductServiceOp.client s)
                 (''admin/products/'' @ fmtInteger (unat (Product.ID product)) [] @ ''.json'')
                 \<lparr>Product = Some product\<rparr> \<lparr>Product = None\<rparr> c)) \<noteq> None \<longrightarrow>
      fst (fst (Put_ProductResource (ProductServiceOp.client s)
                 (''admin/products/'' @ fmtInteger (unat (Product.ID product)) [] @ ''.json'')
                 \<lparr>Product = Some product\<rparr> \<lparr>Product = None\<rparr> c)) =
        \<lparr>Product = None\<rparr>) \<longrightarrow>
    (snd (fst (ProductServiceOp_Update s product c)) \<noteq> None \<longrightarrow>
      fst (fst (ProductServiceOp_Update s product c)) = None))
   \<and> CustomerServiceOp_List t options c =
     (case Get_CustomersResource (CustomerServiceOp.client t)
             ''admin/customers.json''
             \<lparr>Customers = []\<rparr> options c of
        ((r, err), c') \<Rightarrow> ((Customers r, err), c'))
   \<and> ((snd (fst (Get_CustomersResource (CustomerServiceOp.client t)
                 ''admin/customers.json''
                 \<lparr>Customers = []\<rparr> options c)) \<noteq> None \<longrightarrow>
      fst (fst (Get_CustomersResource (CustomerServiceOp.client t)
                 ''admin/customers.json''
                 \<lparr>Customers = []\<rparr> options c)) =
        \<lparr>Customers = []\<rparr>) \<longrightarrow>
    (snd (fst (CustomerServiceOp_List t options c)) \<noteq> None \<longrightarrow>
      fst (fst (CustomerServiceOp_List t options c)) = []))
   \<and> CustomerServiceOp_Get t n options c =
     (case Get_CustomerResource (CustomerServiceOp.client t)
             (''admin/customers/'' @ fmtInteger (unat n) [] @ ''.json'')
             \<lparr>Customer = None\<rparr> options c of
        ((r, err), c') \<Rightarrow> ((Customer r, err), c'))
   \<and> ((snd (fst (Get_CustomerResource (CustomerServiceOp.client t)
                 (''admin/customers/'' @ fmtInteger (unat n) [] @ ''.json'')
                 \<lparr>Customer = None\<rparr> options c)) \<noteq> None \<longrightarrow>
      fst (fst (Get_CustomerResource (CustomerServiceOp.client t)
                 (''admin/customers/'' @ fmtInteger (unat n) [] @ ''.json'')
                 \<lparr>Customer = None\<rparr> options c)) =
        \<lparr>Customer = None\<rparr>) \<longrightarrow>
    (snd (fst (CustomerServiceOp_Get t n options c)) \<noteq> None \<longrightarrow>
      fst (fst (CustomerServiceOp_Get t n options c)) = None))
   \<and> CustomerServiceOp_Search t options c =
     (case Get_CustomersResource (CustomerServiceOp.client t)
             ''admin/customers/search.json''
             \<lparr>Customers = []\<rparr> options c of
        ((r, err), c') \<Rightarrow> ((Customers r, err), c'))
   \<and> ((snd (fst (Get_CustomersResource (CustomerServiceOp.client t)
                 ''admin/customers/search.json''
                 \<lparr>Customers = []\<rparr> options c)) \<noteq> None \<longrightarrow>
      fst (fst (Get_CustomersResource (CustomerServiceOp.client t)
                 ''admin/customers/search.json''
                 \<lparr>Customers = []\<rparr> options c)) =
        \<lparr>Customers = []\<rparr>) \<longrightarrow>
    (snd (fst (CustomerServiceOp_Search t options c)) \<noteq> None \<longrightarrow>
      fst (fst (CustomerServiceOp_Search t options c)) = []))
   \<and> CustomerServiceOp_Create t customer c =
     (case Post_CustomerResource (CustomerServiceOp.client t)
             ''admin/customers.json''
             \<lparr>Customer = Some customer\<rparr> \<lparr>Customer = None\<rparr> c of
        ((r, err), c') \<Rightarrow> ((Customer r, err), c'))
   \<and> ((snd (fst (Post_CustomerResource (CustomerServiceOp.client t)
                 ''admin/customers.json''
                 \<lparr>Customer = Some customer\<rparr> \<lparr>Customer = None\<rparr> c)) \<noteq> None \<longrightarrow>
      fst (fst (Post_CustomerResource (CustomerServiceOp.client t)
                 ''admin/customers.json''
                 \<lparr>Customer = Some customer\<rparr> \<lparr>Customer = None\<rparr> c)) =
        \<lparr>Customer = None\<rparr>) \<longrightarrow>
    (snd (fst (CustomerServiceOp_Create t customer c)) \<noteq> None \<longrightarrow>
      fst (fst (CustomerServiceOp_Create t customer c)) = None))
   \<and> CustomerServiceOp_Update t customer c =
     (case Put_CustomerResource (CustomerServiceOp.client t)
             (''admin/customers/'' @ fmtInteger (unat (Customer.ID customer)) [] @ ''.json'')
             \<lparr>Customer = Some customer\<rparr> \<lparr>Customer = None\<rparr> c of
        ((r, err), c') \<Rightarrow> ((Customer r, err), c'))
   \<and> ((snd (fst (Put_CustomerResource (CustomerServiceOp.client t)
                 (''admin/customers/'' @ fmtInteger (unat (Customer.ID customer)) [] @ ''.json'')
                 \<lparr>Customer = Some customer\<rparr> \<lparr>Customer = None\<rparr> c)) \<noteq> None \<longrightarrow>
      fst (fst (Put_CustomerResource (CustomerServiceOp.client t)
                 (''admin/customers/'' @ fmtInteger (unat (Customer.ID customer)) [] @ ''.json'')
                 \<lparr>Customer = Some customer\<rparr> \<lparr>Customer = None\<rparr> c)) =
        \<lparr>Customer = None\<rparr>) \<longrightarrow>
    (snd (fst (CustomerServiceOp_Update t customer c)) \<noteq> None \<longrightarrow>
      fst (fst (CustomerServiceOp_Update t customer c)) = None))"
proof -
  have "ProductServiceOp_List s options c =
      (case Get_ProductsResource (ProductServiceOp.client s)
              ''admin/products.json''
              \<lparr>Products = []\<rparr> options c of
         ((r, err), c') \<Rightarrow> ((Products r, err), c'))"
    by (rule ProductServiceOp_List_call)
  moreover have "((snd (fst (Get_ProductsResource (ProductServiceOp.client s)
                  ''admin/products.json''
                  \<lparr>Products = []\<rparr> options c)) \<noteq> None \<longrightarrow>
       fst (fst (Get_ProductsResource (ProductServiceOp.client s)
                  ''admin/products.json''
                  \<lparr>Products = []\<rparr> options c)) =
         \<lparr>Products = []\<rparr>) \<longrightarrow>
     (snd (fst (ProductServiceOp_List s options c)) \<noteq> None \<longrightarrow>
       fst (fst (ProductServiceOp_List s options c)) = []))"
    by (simp add: ProductServiceOp_List_call case_prod_beta)
  moreover have "ProductServiceOp_Get s n options c =
      (case Get_ProductResource (ProductServiceOp.client s)
              (''admin/products/'' @ fmtInteger (unat n) [] @ ''.json'')
              \<lparr>Product = None\<rparr> options c of
         ((r, err), c') \<Rightarrow> ((Product r, err), c'))"
    by (rule ProductServiceOp_Get_call)
  moreover have "((snd (fst (Get_ProductResource (ProductServiceOp.client s)
                  (''admin/products/'' @ fmtInteger (unat n) [] @ ''.json'')
                  \<lparr>Product = None\<rparr> options c)) \<noteq> None \<longrightarrow>
       fst (fst (Get_ProductResource (ProductServiceOp.client s)
                  (''admin/products/'' @ fmtInteger (unat n) [] @ ''.json'')
                  \<lparr>Product = None\<rparr> options c)) =
         \<lparr>Product = None\<rparr>) \<longrightarrow>
     (snd (fst (ProductServiceOp_Get s n options c)) \<noteq> None \<longrightarrow>
       fst (fst (ProductServiceOp_Get s n options c)) = None))"
    by (simp add: ProductServiceOp_Get_call case_prod_beta)
  moreover have "ProductServiceOp_Create s product c =
      (case Post_ProductResource (ProductServiceOp.client s)
              ''admin/products.json''
              \<lparr>Product = Some product\<rparr> \<lparr>Product = None\<rparr> c of
         ((r, err), c') \<Rightarrow> ((Product r, err), c'))"
    by (rule ProductServiceOp_Create_call)
  moreover have "((snd (fst (Post_ProductResource (ProductServiceOp.client s)
                  ''admin/products.json''
                  \<lparr>Product = Some product\<rparr> \<lparr>Product = None\<rparr> c)) \<noteq> None \<longrightarrow>
       fst (fst (Post_ProductResource (ProductServiceOp.client s)
                  ''admin/products.json''
                  \<lparr>Product = Some product\<rparr> \<lparr>Product = None\<rparr> c)) =
         \<lparr>Product = None\<rparr>) \<longrightarrow>
     (snd (fst (ProductServiceOp_Create s product c)) \<noteq> None \<longrightarrow>
       fst (fst (ProductServiceOp_Create s product c)) = None))"
    by (simp add: ProductServiceOp_Create_call case_prod_beta)
  moreover have "ProductServiceOp_Update s product c =
      (case Put_ProductResource (ProductServiceOp.client s)
              (''admin/products/'' @ fmtInteger (unat (Product.ID product)) [] @ ''.json'')
              \<lparr>Product = Some product\<rparr> \<lparr>Product = None\<rparr> c of
         ((r, err), c') \<Rightarrow> ((Product r, err), c'))"
    by (rule ProductServiceOp_Update_call)
  moreover have "((snd (fst (Put_ProductResource (ProductServiceOp.client s)
                  (''admin/products/'' @ fmtInteger (unat (Product.ID product)) [] @ ''.json'')
                  \<lparr>Product = Some product\<rparr> \<lparr>Product = None\<rparr> c)) \<noteq> None \<longrightarrow>
       fst (fst (Put_ProductResource (ProductServiceOp.client s)
                  (''admin/products/'' @ fmtInteger (unat (Product.ID product)) [] @ ''.json'')
                  \<lparr>Product = Some product\<rparr> \<lparr>Product = None\<rparr> c)) =
         \<lparr>Product = None\<rparr>) \<longrightarrow>
     (snd (fst (ProductServiceOp_Update s product c)) \<noteq> None \<longrightarrow>
       fst (fst (ProductServiceOp_Update s product c)) = None))"
    by (simp add: ProductServiceOp_Update_call case_prod_beta)
  moreover have "CustomerServiceOp_List t options c =
      (case Get_CustomersResource (CustomerServiceOp.client t)
              ''admin/customers.json''
              \<lparr>Customers = []\<rparr> options c of
         ((r, err), c') \<Rightarrow> ((Customers r, err), c'))"
    by (rule CustomerServiceOp_List_call)
  moreover have "((snd (fst (Get_CustomersResource (CustomerServiceOp.client t)
                  ''admin/customers.json''
                  \<lparr>Customers = []\<rparr> options c)) \<noteq> None \<longrightarrow>
       fst (fst (Get_CustomersResource (CustomerServiceOp.client t)
                  ''admin/customers.json''
                  \<lparr>Customers = []\<rparr> options c)) =
         \<lparr>Customers = []\<rparr>) \<longrightarrow>
     (snd (fst (CustomerServiceOp_List t options c)) \<noteq> None \<longrightarrow>
       fst (fst (CustomerServiceOp_List t options c)) = []))"
    by (simp add: CustomerServiceOp_List_call case_prod_beta)
  moreover have "CustomerServiceOp_Get t n options c =
      (case Get_CustomerResource (CustomerServiceOp.client t)
              (''admin/customers/'' @ fmtInteger (unat n) [] @ ''.json'')
              \<lparr>Customer = None\<rparr> options c of
         ((r, err), c') \<Rightarrow> ((Customer r, err), c'))"
    by (rule CustomerServiceOp_Get_call)
  moreover have "((snd (fst (Get_CustomerResource (CustomerServiceOp.client t)
                  (''admin/customers/'' @ fmtInteger (unat n) [] @ ''.json'')
                  \<lparr>Customer = None\<rparr> options c)) \<noteq> None \<longrightarrow>
       fst (fst (Get_CustomerResource (CustomerServiceOp.client t)
                  (''admin/customers/'' @ fmtInteger (unat n) [] @ ''.json'')
                  \<lparr>Customer = None\<rparr> options c)) =
         \<lparr>Customer = None\<rparr>) \<longrightarrow>
     (snd (fst (CustomerServiceOp_Get t n options c)) \<noteq> None \<longrightarrow>
       fst (fst (CustomerServiceOp_Get t n options c)) = None))"
    by (simp add: CustomerServiceOp_Get_call case_prod_beta)
  moreover have "CustomerServiceOp_Search t options c =
      (case Get_CustomersResource (CustomerServiceOp.client t)
              ''admin/customers/search.json''
              \<lparr>Customers = []\<rparr> options c of
         ((r, err), c') \<Rightarrow> ((Customers r, err), c'))"
    by (rule CustomerServiceOp_Search_call)
  moreover have "((snd (fst (Get_CustomersResource (CustomerServiceOp.client t)
                  ''admin/customers/search.json''
                  \<lparr>Customers = []\<rparr> options c)) \<noteq> None \<longrightarrow>
       fst (fst (Get_CustomersResource (CustomerServiceOp.client t)
                  ''admin/customers/search.json''
                  \<lparr>Customers = []\<rparr> options c)) =
         \<lparr>Customers = []\<rparr>) \<longrightarrow>
     (snd (fst (CustomerServiceOp_Search t options c)) \<noteq> None \<longrightarrow>
       fst (fst (CustomerServiceOp_Search t options c)) = []))"
    by (simp add: CustomerServiceOp_Search_call case_prod_beta)
  moreover have "CustomerServiceOp_Create t customer c =
      (case Post_CustomerResource (CustomerServiceOp.client t)
              ''admin/customers.json''
              \<lparr>Customer = Some customer\<rparr> \<lparr>Customer = None\<rparr> c of
         ((r, err), c') \<Rightarrow> ((Customer r, err), c'))"
    by (rule CustomerServiceOp_Create_call)
  moreover have "((snd (fst (Post_CustomerResource (CustomerServiceOp.client t)
                  ''admin/customers.json''
                  \<lparr>Customer = Some customer\<rparr> \<lparr>Customer = None\<rparr> c)) \<noteq> None \<longrightarrow>
       fst (fst (Post_CustomerResource (CustomerServiceOp.client t)
                  ''admin/customers.json''
                  \<lparr>Customer = Some customer\<rparr> \<lparr>Customer = None\<rparr> c)) =
         \<lparr>Customer = None\<rparr>) \<longrightarrow>
     (snd (fst (CustomerServiceOp_Create t customer c)) \<noteq> None \<longrightarrow>
       fst (fst (CustomerServiceOp_Create t customer c)) = None))"
    by (simp add: CustomerServiceOp_Create_call case_prod_beta)
  moreover have "CustomerServiceOp_Update t customer c =
      (case Put_CustomerResource (CustomerServiceOp.client t)
              (''admin/customers/'' @ fmtInteger (unat (Customer.ID customer)) [] @ ''.json'')
              \<lparr>Customer = Some customer\<rparr> \<lparr>Customer = None\<rparr> c of
         ((r, err), c') \<Rightarrow> ((Customer r, err), c'))"
    by (rule CustomerServiceOp_Update_call)
  moreover have "((snd (fst (Put_CustomerResource (CustomerServiceOp.client t)
                  (''admin/customers/'' @ fmtInteger (unat (Customer.ID customer)) [] @ ''.json'')
                  \<lparr>Customer = Some customer\<rparr> \<lparr>Customer = None\<rparr> c)) \<noteq> None \<longrightarrow>
       fst (fst (Put_CustomerResource (CustomerServiceOp.client t)
                  (''admin/customers/'' @ fmtInteger (unat (Customer.ID customer)) [] @ ''.json'')
                  \<lparr>Customer = Some customer\<rparr> \<lparr>Customer = None\<rparr> c)) =
         \<lparr>Customer = None\<rparr>) \<longrightarrow>
     (snd (fst (CustomerServiceOp_Update t customer c)) \<noteq> None \<longrightarrow>
       fst (fst (CustomerServiceOp_Update t customer c)) = None))"
    by (simp add: CustomerServiceOp_Update_call case_prod_beta)
  ultimately show ?thesis
    by (intro conjI)
qed

theorem failure_gives_zero_witness:
  "Get_ProductsResource timing_out ''admin/products.json''
       \<lparr>Products = []\<rparr> None [] =
     ((\<lparr>Products = []\<rparr>, Some (Error ''timeout'')), [GetCall ''admin/products.json''])
   \<and> ProductServiceOp_List \<lparr>ProductServiceOp.client = timing_out\<rparr> None [] =
     (([], Some (Error ''timeout'')), [GetCall ''admin/products.json''])
   \<and> Get_ProductResource timing_out ''admin/products/42.json''
       \<lparr>Product = None\<rparr> None [] =
     ((\<lparr>Product = None\<rparr>, Some (Error ''timeout'')), [GetCall ''admin/products/42.json''])
   \<and> ProductServiceOp_Get \<lparr>ProductServiceOp.client = timing_out\<rparr> 42 None [] =
     ((None, Some (Error ''timeout'')), [GetCall ''admin/products/42.json''])
   \<and> Post_ProductResource timing_out ''admin/products.json''
       \<lparr>Product = Some mug\<rparr> \<lparr>Product = None\<rparr> [] =
     ((\<lparr>Product = None\<rparr>, Some (Error ''timeout'')), [PostCall ''admin/products.json''])
   \<and> ProductServiceOp_Create \<lparr>ProductServiceOp.client = timing_out\<rparr> mug [] =
     ((None, Some (Error ''timeout'')), [PostCall ''admin/products.json''])
   \<and> Put_ProductResource timing_out ''admin/products/7.json''
       \<lparr>Product = Some mug\<rparr> \<lparr>Product = None\<rparr> [] =
     ((\<lparr>Product = None\<rparr>, Some (Error ''timeout'')), [PutCall ''admin/products/7.json''])
   \<and> ProductServiceOp_Update \<lparr>ProductServiceOp.client = timing_out\<rparr> mug [] =
     ((None, Some (Error ''timeout'')), [PutCall ''admin/products/7.json''])
   \<and> Get_CustomersResource timing_out ''admin/customers.json''
       \<lparr>Customers = []\<rparr> None [] =
     ((\<lparr>Customers = []\<rparr>, Some (Error ''timeout'')), [GetCall ''admin/customers.json''])
   \<and> CustomerServiceOp_List \<lparr>CustomerServiceOp.client = timing_out\<rparr> None [] =
     (([], Some (Error ''timeout'')), [GetCall ''admin/customers.json''])
   \<and> Get_CustomerResource timing_out ''admin/customers/42.json''
       \<lparr>Customer = None\<rparr> None [] =
     ((\<lparr>Customer = None\<rparr>, Some (Error ''timeout'')), [GetCall ''admin/customers/42.json''])
   \<and> CustomerServiceOp_Get \<lparr>CustomerServiceOp.client = timing_out\<rparr> 42 None [] =
     ((None, Some (Error ''timeout'')), [GetCall ''admin/customers/42.json''])
   \<and> Get_CustomersResource timing_out ''admin/customers/search.json''
       \<lparr>Customers = []\<rparr> None [] =
     ((\<lparr>Customers = []\<rparr>, Some (Error ''timeout'')), [GetCall ''admin/customers/search.json''])
   \<and> CustomerServiceOp_Search \<lparr>CustomerServiceOp.client = timing_out\<rparr> None [] =
     (([], Some (Error ''timeout'')), [GetCall ''admin/customers/search.json''])
   \<and> Post_CustomerResource timing_out ''admin/customers.json''
       \<lparr>Customer = Some ada\<rparr> \<lparr>Customer = None\<rparr> [] =
     ((\<lparr>Customer = None\<rparr>, Some (Error ''timeout'')), [PostCall ''admin/customers.json''])
   \<and> CustomerServiceOp_Create \<lparr>CustomerServiceOp.client = timing_out\<rparr> ada [] =
     ((None, Some (Error ''timeout'')), [PostCall ''admin/customers.json''])
   \<and> Put_CustomerResource timing_out ''admin/customers/7.json''
       \<lparr>Customer = Some ada\<rparr> \<lparr>Customer = None\<rparr> [] =
     ((\<lparr>Customer = None\<rparr>, Some (Error ''timeout'')), [PutCall ''admin/customers/7.json''])
   \<and> CustomerServiceOp_Update \<lparr>CustomerServiceOp.client = timing_out\<rparr> ada [] =
     ((None, Some (Error ''timeout'')), [PutCall ''admin/customers/7.json''])
   \<and> Get_CustomerResource (half_decoding mug [ada] (Error ''unexpected EOF'')) ''admin/customers/42.json''
       \<lparr>Customer = None\<rparr> None [] =
     ((\<lparr>Customer = None\<rparr>, Some (Error ''unexpected EOF'')), [GetCall ''admin/customers/42.json''])
   \<and> CustomerServiceOp_Get \<lparr>CustomerServiceOp.client = half_decoding mug [ada] (Error ''unexpected EOF'')\<rparr>
       42 None [] =
     ((None, Some (Error ''unexpected EOF'')), [GetCall ''admin/customers/42.json''])"
  using failure_gives_zero [of "\<lparr>ProductServiceOp.client = timing_out\<rparr>" None "[]" 42 mug
      "\<lparr>CustomerServiceOp.client = timing_out\<rparr>" ada]
    failure_gives_zero [of "\<lparr>ProductServiceOp.client = half_decoding mug [ada] (Error ''unexpected EOF'')\<rparr>" None "[]" 42 mug
      "\<lparr>CustomerServiceOp.client = half_decoding mug [ada] (Error ''unexpected EOF'')\<rparr>" ada]
  by (simp add: timing_out_def half_decoding_def answering_calls fmtInteger_42 fmtInteger_7
      fixture_IDs)

text \<open>
  C3, at the zero values. A customer with every field zero is written with no key. A
  product with every field zero is written with the key \<^verbatim>\<open>image\<close>, whatever fields the
  struct \<^verbatim>\<open>Image\<close> has: the field \<^verbatim>\<open>Image\<close> holds a struct, not a pointer to one, and
  \<^verbatim>\<open>omitempty\<close> never omits a struct.
\<close>

theorem zero_Product_has_image_key:
  "Marshal_keys (Product_Value (Product_zero (VStruct fs))) = [''image'']
   \<and> Marshal_keys (Customer_Value Customer_zero) = []"
  by (simp add: Product_Value_def Product_zero_def Customer_Value_def Customer_zero_def
      written_def tag_name_def tag_omitEmpty_def)

text \<open>
  C4. For every entity whose ID is zero (unset), Update puts to \<^verbatim>\<open>admin/products/0.json\<close>
  (\<^verbatim>\<open>admin/customers/0.json\<close>), with the entity as given in the envelope: the missing id
  is neither corrected nor rejected before the call.
\<close>

theorem update_without_id:
  "(Product.ID product = 0 \<longrightarrow>
      ProductServiceOp_Update s product c =
        (case Put_ProductResource (ProductServiceOp.client s)
                ''admin/products/0.json''
                \<lparr>Product = Some product\<rparr> \<lparr>Product = None\<rparr> c of
           ((r, err), c') \<Rightarrow> ((Product r, err), c')))
   \<and> (Customer.ID customer = 0 \<longrightarrow>
      CustomerServiceOp_Update t customer c =
        (case Put_CustomerResource (CustomerServiceOp.client t)
                ''admin/customers/0.json''
                \<lparr>Customer = Some customer\<rparr> \<lparr>Customer = None\<rparr> c of
           ((r, err), c') \<Rightarrow> ((Customer r, err), c')))"
  by (simp add: ProductServiceOp_Update_call CustomerServiceOp_Update_call fmtInteger_0)

theorem update_without_id_witness:
  "Product.ID (Product_zero (VStruct [])) = 0
   \<and> ProductServiceOp_Update \<lparr>ProductServiceOp.client = echoing\<rparr>
       (Product_zero (VStruct [])) [] =
     ((Some (Product_zero (VStruct [])), None), [PutCall ''admin/products/0.json''])
   \<and> Customer.ID Customer_zero = 0
   \<and> CustomerServiceOp_Update \<lparr>CustomerServiceOp.client = echoing\<rparr>
       Customer_zero [] =
     ((Some Customer_zero, None), [PutCall ''admin/customers/0.json''])"
  using update_without_id [of "Product_zero (VStruct [])"
      "\<lparr>ProductServiceOp.client = echoing\<rparr>" "[]" Customer_zero
      "\<lparr>CustomerServiceOp.client = echoing\<rparr>"]
  by (simp add: zero_IDs echoing_calls)

text \<open>
  C5. For every resource id, each metafield operation of the product client
  (ListMetafields, CountMetafields, GetMetafield, CreateMetafield, UpdateMetafield,
  DeleteMetafield) is the operation of a metafield helper bound to the client, the resource
  name \<^verbatim>\<open>products\<close> and that id, with the arguments as given; so its one request has a
  path \<^verbatim>\<open>products/<id>/metafields...\<close>. The customer client does the same with
  \<^verbatim>\<open>customers\<close>.
\<close>

theorem metafield_delegation:
  "ProductServiceOp_ListMetafields s n options c =
       MetafieldServiceOp_List
         \<lparr>MetafieldServiceOp.client = ProductServiceOp.client s,
          resource = ''products'', resourceID = n\<rparr> options c
   \<and> ProductServiceOp_ListMetafields s n options c =
       (case Get_MetafieldsResource (ProductServiceOp.client s)
               (''products/'' @ fmtInteger (unat n) [] @ ''/metafields.json'')
               \<lparr>MetafieldsResource.Metafields = []\<rparr> options c of
          ((r, err), c') \<Rightarrow> ((MetafieldsResource.Metafields r, err), c'))
   \<and> ProductServiceOp_CountMetafields s n options c =
       MetafieldServiceOp_Count
         \<lparr>MetafieldServiceOp.client = ProductServiceOp.client s,
          resource = ''products'', resourceID = n\<rparr> options c
   \<and> ProductServiceOp_CountMetafields s n options c =
       Count (ProductServiceOp.client s)
         (''products/'' @ fmtInteger (unat n) [] @ ''/metafields/count.json'') options c
   \<and> ProductServiceOp_GetMetafield s n m options c =
       MetafieldServiceOp_Get
         \<lparr>MetafieldServiceOp.client = ProductServiceOp.client s,
          resource = ''products'', resourceID = n\<rparr> m options c
   \<and> ProductServiceOp_GetMetafield s n m options c =
       (case Get_MetafieldResource (ProductServiceOp.client s)
               (''products/'' @ fmtInteger (unat n) [] @ ''/metafields/'' @ fmtInteger (unat m) [] @ ''.json'')
               \<lparr>Metafield = None\<rparr> options c of
          ((r, err), c') \<Rightarrow> ((Metafield r, err), c'))
   \<and> ProductServiceOp_CreateMetafield s n metafield c =
       MetafieldServiceOp_Create
         \<lparr>MetafieldServiceOp.client = ProductServiceOp.client s,
          resource = ''products'', resourceID = n\<rparr> metafield c
   \<and> ProductServiceOp_CreateMetafield s n metafield c =
       (case Post_MetafieldResource (ProductServiceOp.client s)
               (''products/'' @ fmtInteger (unat n) [] @ ''/metafields.json'')
               \<lparr>Metafield = Some metafield\<rparr> \<lparr>Metafield = None\<rparr> c of
          ((r, err), c') \<Rightarrow> ((Metafield r, err), c'))
   \<and> ProductServiceOp_UpdateMetafield s n metafield c =
       MetafieldServiceOp_Update
         \<lparr>MetafieldServiceOp.client = ProductServiceOp.client s,
          resource = ''products'', resourceID = n\<rparr> metafield c
   \<and> ProductServiceOp_UpdateMetafield s n metafield c =
       (case Put_MetafieldResource (ProductServiceOp.client s)
               (''products/'' @ fmtInteger (unat n) [] @ ''/metafields/'' @
                 fmtInteger (unat (Metafield.ID metafield)) [] @ ''.json'')
               \<lparr>Metafield = Some metafield\<rparr> \<lparr>Metafield = None\<rparr> c of
          ((r, err), c') \<Rightarrow> ((Metafield r, err), c'))
   \<and> ProductServiceOp_DeleteMetafield s n m c =
       MetafieldServiceOp_Delete
         \<lparr>MetafieldServiceOp.client = ProductServiceOp.client s,
          resource = ''products'', resourceID = n\<rparr> m c
   \<and> ProductServiceOp_DeleteMetafield s n m c =
       Delete (ProductServiceOp.client s)
         (''products/'' @ fmtInteger (unat n) [] @ ''/metafields/'' @ fmtInteger (unat m) [] @ ''.json'') c
   \<and> CustomerServiceOp_ListMetafields t n options c =
       MetafieldServiceOp_List
         \<lparr>MetafieldServiceOp.client = CustomerServiceOp.client t,
          resource = ''customers'', resourceID = n\<rparr> options c
   \<and> CustomerServiceOp_ListMetafields t n options c =
       (case Get_MetafieldsResource (CustomerServiceOp.client t)
               (''customers/'' @ fmtInteger (unat n) [] @ ''/metafields.json'')
               \<lparr>MetafieldsResource.Metafields = []\<rparr> options c of
          ((r, err), c') \<Rightarrow> ((MetafieldsResource.Metafields r, err), c'))
   \<and> CustomerServiceOp_CountMetafields t n options c =
       MetafieldServiceOp_Count
         \<lparr>MetafieldServiceOp.client = CustomerServiceOp.client t,
          resource = ''customers'', resourceID = n\<rparr> options c
   \<and> CustomerServiceOp_CountMetafields t n options c =
       Count (CustomerServiceOp.client t)
         (''customers/'' @ fmtInteger (unat n) [] @ ''/metafields/count.json'') options c
   \<and> CustomerServiceOp_GetMetafield t n m options c =
       MetafieldServiceOp_Get
         \<lparr>MetafieldServiceOp.client = CustomerServiceOp.client t,
          resource = ''customers'', resourceID = n\<rparr> m options c
   \<and> CustomerServiceOp_GetMetafield t n m options c =
       (case Get_MetafieldResource (CustomerServiceOp.client t)
               (''customers/'' @ fmtInteger (unat n) [] @ ''/metafields/'' @ fmtInteger (unat m) [] @ ''.json'')
               \<lparr>Metafield = None\<rparr> options c of
          ((r, err), c') \<Rightarrow> ((Metafield r, err), c'))
   \<and> CustomerServiceOp_CreateMetafield t n metafield c =
       MetafieldServiceOp_Create
         \<lparr>MetafieldServiceOp.client = CustomerServiceOp.client t,
          resource = ''customers'', resourceID = n\<rparr> metafield c
   \<and> CustomerServiceOp_CreateMetafield t n metafield c =
       (case Post_MetafieldResource (CustomerServiceOp.client t)
               (''customers/'' @ fmtInteger (unat n) [] @ ''/metafields.json'')
               \<lparr>Metafield = Some metafield\<rparr> \<lparr>Metafield = None\<rparr> c of
          ((r, err), c') \<Rightarrow> ((Metafield r, err), c'))
   \<and> CustomerServiceOp_UpdateMetafield t n metafield c =
       MetafieldServiceOp_Update
         \<lparr>MetafieldServiceOp.client = CustomerServiceOp.client t,
          resource = ''customers'', resourceID = n\<rparr> metafield c
   \<and> CustomerServiceOp_UpdateMetafield t n metafield c =
       (case Put_MetafieldResource (CustomerServiceOp.client t)
               (''customers/'' @ fmtInteger (unat n) [] @ ''/metafields/'' @
                 fmtInteger (unat (Metafield.ID metafield)) [] @ ''.json'')
               \<lparr>Metafield = Some metafield\<rparr> \<lparr>Metafield = None\<rparr> c of
          ((r, err), c') \<Rightarrow> ((Metafield r, err), c'))
   \<and> CustomerServiceOp_DeleteMetafield t n m c =
       MetafieldServiceOp_Delete
         \<lparr>MetafieldServiceOp.client = CustomerServiceOp.client t,
          resource = ''customers'', resourceID = n\<rparr> m c
   \<and> CustomerServiceOp_DeleteMetafield t n m c =
       Delete (CustomerServiceOp.client t)
         (''customers/'' @ fmtInteger (unat n) [] @ ''/metafields/'' @ fmtInteger (unat m) [] @ ''.json'') c"
  by (simp add: delegations metafield_calls paths)

theorem metafield_delegation_witness:
  "ProductServiceOp_ListMetafields \<lparr>ProductServiceOp.client = accepting\<rparr> 42 None [] =
     (([], None), [GetCall ''products/42/metafields.json''])
   \<and> ProductServiceOp_CountMetafields \<lparr>ProductServiceOp.client = accepting\<rparr> 42 None [] =
     ((0, None), [CountCall ''products/42/metafields/count.json''])
   \<and> ProductServiceOp_GetMetafield \<lparr>ProductServiceOp.client = accepting\<rparr> 42 7 None [] =
     ((None, None), [GetCall ''products/42/metafields/7.json''])
   \<and> ProductServiceOp_CreateMetafield \<lparr>ProductServiceOp.client = accepting\<rparr> 42 colour [] =
     ((None, None), [PostCall ''products/42/metafields.json''])
   \<and> ProductServiceOp_UpdateMetafield \<lparr>ProductServiceOp.client = accepting\<rparr> 42 colour [] =
     ((None, None), [PutCall ''products/42/metafields/7.json''])
   \<and> ProductServiceOp_DeleteMetafield \<lparr>ProductServiceOp.client = accepting\<rparr> 42 7 [] =
     (None, [DeleteCall ''products/42/metafields/7.json''])
   \<and> CustomerServiceOp_ListMetafields \<lparr>CustomerServiceOp.client = accepting\<rparr> 42 None [] =
     (([], None), [GetCall ''customers/42/metafields.json''])
   \<and> CustomerServiceOp_CountMetafields \<lparr>CustomerServiceOp.client = accepting\<rparr> 42 None [] =
     ((0, None), [CountCall ''customers/42/metafields/count.json''])
   \<and> CustomerServiceOp_GetMetafield \<lparr>CustomerServiceOp.client = accepting\<rparr> 42 7 None [] =
     ((None, None), [GetCall ''customers/42/metafields/7.json''])
   \<and> CustomerServiceOp_CreateMetafield \<lparr>CustomerServiceOp.client = accepting\<rparr> 42 colour [] =
     ((None, None), [PostCall ''customers/42/metafields.json''])
   \<and> CustomerServiceOp_UpdateMetafield \<lparr>CustomerServiceOp.client = accepting\<rparr> 42 colour [] =
     ((None, None), [PutCall ''customers/42/metafields/7.json''])
   \<and> CustomerServiceOp_DeleteMetafield \<lparr>CustomerServiceOp.client = accepting\<rparr> 42 7 [] =
     (None, [DeleteCall ''customers/42/metafields/7.json''])"
  using metafield_delegation [of "\<lparr>ProductServiceOp.client = accepting\<rparr>" 42 None "[]" 7 colour
      "\<lparr>CustomerServiceOp.client = accepting\<rparr>"]
  by (simp add: metafield_calls accepting_def answering_calls colour_def fmtInteger_42
      fmtInteger_7)

text \<open>
  C6. For every entity, Create wraps it in the singular envelope (written with the one key
  \<^verbatim>\<open>product\<close>, or \<^verbatim>\<open>customer\<close>), posts the envelope to the collection path
  \<^verbatim>\<open>admin/products.json\<close> (\<^verbatim>\<open>admin/customers.json\<close>), and returns the entity found in
  the singular field of the response envelope.
\<close>

theorem create_posts_envelope:
  "ProductServiceOp_Create s product c =
     (case Post_ProductResource (ProductServiceOp.client s)
             ''admin/products.json''
             \<lparr>Product = Some product\<rparr> \<lparr>Product = None\<rparr> c of
        ((r, err), c') \<Rightarrow> ((Product r, err), c'))
   \<and> Marshal_keys (ProductResource_Value \<lparr>Product = Some product\<rparr>) = [''product'']
   \<and> CustomerServiceOp_Create t customer c =
     (case Post_CustomerResource (CustomerServiceOp.client t)
             ''admin/customers.json''
             \<lparr>Customer = Some customer\<rparr> \<lparr>Customer = None\<rparr> c of
        ((r, err), c') \<Rightarrow> ((Customer r, err), c'))
   \<and> Marshal_keys (CustomerResource_Value \<lparr>Customer = Some customer\<rparr>) = [''customer'']"
  by (simp add: ProductServiceOp_Create_call CustomerServiceOp_Create_call envelope_keys)

theorem create_posts_envelope_witness:
  "ProductServiceOp_Create \<lparr>ProductServiceOp.client = echoing\<rparr> mug [] =
     ((Some mug, None), [PostCall ''admin/products.json''])
   \<and> CustomerServiceOp_Create \<lparr>CustomerServiceOp.client = echoing\<rparr> ada [] =
     ((Some ada, None), [PostCall ''admin/customers.json''])"
  using create_posts_envelope [of "\<lparr>ProductServiceOp.client = echoing\<rparr>" mug "[]"
      "\<lparr>CustomerServiceOp.client = echoing\<rparr>" ada]
  by (simp add: echoing_calls)

text \<open>
  C7. For every query-options value, Count is the client's Count at
  \<^verbatim>\<open>admin/products/count.json\<close> (\<^verbatim>\<open>admin/customers/count.json\<close>), and its result is
  returned as it is, with no envelope. With a client whose count at
  \<^verbatim>\<open>admin/products/count.json\<close> is 7, Count(nil) of the products returns (7, nil).
\<close>

theorem count_is_bare:
  "ProductServiceOp_Count s options c =
     Count (ProductServiceOp.client s)
       ''admin/products/count.json'' options c
   \<and> CustomerServiceOp_Count t options c =
     Count (CustomerServiceOp.client t)
       ''admin/customers/count.json'' options c
   \<and> ProductServiceOp_Count \<lparr>ProductServiceOp.client = counting\<rparr> None calls =
     ((7, None), calls @ [CountCall ''admin/products/count.json''])"
  by (simp add: ProductServiceOp_Count_call CustomerServiceOp_Count_call counting_calls)

theorem count_is_bare_witness:
  "ProductServiceOp_Count \<lparr>ProductServiceOp.client = counting\<rparr> None [] =
     ((7, None), [CountCall ''admin/products/count.json''])
   \<and> CustomerServiceOp_Count \<lparr>CustomerServiceOp.client = counting\<rparr> None [] =
     ((0, Some (Error ''Not Found'')), [CountCall ''admin/customers/count.json''])"
  using count_is_bare [of "\<lparr>ProductServiceOp.client = counting\<rparr>" None "[]"
      "\<lparr>CustomerServiceOp.client = counting\<rparr>" "[]"]
  by (simp add: counting_calls)

text \<open>
  C8. For every operation of the two clients (List, Count, Get, Create, Update, Delete,
  Search) and every outcome of the client primitive, the error that the operation returns
  is the error of its one call of the primitive, nil when that is nil, and the client is
  left as that one call leaves it: nothing is retried, wrapped or added.
\<close>

theorem errors_pass_through:
  "snd (fst (ProductServiceOp_List s options c)) =
     snd (fst (Get_ProductsResource (ProductServiceOp.client s)
                 ''admin/products.json''
                 \<lparr>Products = []\<rparr> options c))
   \<and> snd (ProductServiceOp_List s options c) =
     snd (Get_ProductsResource (ProductServiceOp.client s)
            ''admin/products.json''
            \<lparr>Products = []\<rparr> options c)
   \<and> snd (fst (ProductServiceOp_Get s n options c)) =
     snd (fst (Get_ProductResource (ProductServiceOp.client s)
                 (''admin/products/'' @ fmtInteger (unat n) [] @ ''.json'')
                 \<lparr>Product = None\<rparr> options c))
   \<and> snd (ProductServiceOp_Get s n options c) =
     snd (Get_ProductResource (ProductServiceOp.client s)
            (''admin/products/'' @ fmtInteger (unat n) [] @ ''.json'')
            \<lparr>Product = None\<rparr> options c)
   \<and> snd (fst (ProductServiceOp_Create s product c)) =
     snd (fst (Post_ProductResource (ProductServiceOp.client s)
                 ''admin/products.json''
                 \<lparr>Product = Some product\<rparr> \<lparr>Product = None\<rparr> c))
   \<and> snd (ProductServiceOp_Create s product c) =
     snd (Post_ProductResource (ProductServiceOp.client s)
            ''admin/products.json''
            \<lparr>Product = Some product\<rparr> \<lparr>Product = None\<rparr> c)
   \<and> snd (fst (ProductServiceOp_Update s product c)) =
     snd (fst (Put_ProductResource (ProductServiceOp.client s)
                 (''admin/products/'' @ fmtInteger (unat (Product.ID product)) [] @ ''.json'')
                 \<lparr>Product = Some product\<rparr> \<lparr>Product = None\<rparr> c))
   \<and> snd (ProductServiceOp_Update s product c) =
     snd (Put_ProductResource (ProductServiceOp.client s)
            (''admin/products/'' @ fmtInteger (unat (Product.ID product)) [] @ ''.json'')
            \<lparr>Product = Some product\<rparr> \<lparr>Product = None\<rparr> c)
   \<and> snd (fst (CustomerServiceOp_List t options c)) =
     snd (fst (Get_CustomersResource (CustomerServiceOp.client t)
                 ''admin/customers.json''
                 \<lparr>Customers = []\<rparr> options c))
   \<and> snd (CustomerServiceOp_List t options c) =
     snd (Get_CustomersResource (CustomerServiceOp.client t)
            ''admin/customers.json''
            \<lparr>Customers = []\<rparr> options c)
   \<and> snd (fst (CustomerServiceOp_Get t n options c)) =
     snd (fst (Get_CustomerResource (CustomerServiceOp.client t)
                 (''admin/customers/'' @ fmtInteger (unat n) [] @ ''.json'')
                 \<lparr>Customer = None\<rparr> options c))
   \<and> snd (CustomerServiceOp_Get t n options c) =
     snd (Get_CustomerResource (CustomerServiceOp.client t)
            (''admin/customers/'' @ fmtInteger (unat n) [] @ ''.json'')
            \<lparr>Customer = None\<rparr> options c)
   \<and> snd (fst (CustomerServiceOp_Search t options c)) =
     snd (fst (Get_CustomersResource (CustomerServiceOp.client t)
                 ''admin/customers/search.json''
                 \<lparr>Customers = []\<rparr> options c))
   \<and> snd (CustomerServiceOp_Search t options c) =
     snd (Get_CustomersResource (CustomerServiceOp.client t)
            ''admin/customers/search.json''
            \<lparr>Customers = []\<rparr> options c)
   \<and> snd (fst (CustomerServiceOp_Create t customer c)) =
     snd (fst (Post_CustomerResource (CustomerServiceOp.client t)
                 ''admin/customers.json''
                 \<lparr>Customer = Some customer\<rparr> \<lparr>Customer = None\<rparr> c))
   \<and> snd (CustomerServiceOp_Create t customer c) =
     snd (Post_CustomerResource (CustomerServiceOp.client t)
            ''admin/customers.json''
            \<lparr>Customer = Some customer\<rparr> \<lparr>Customer = None\<rparr> c)
   \<and> snd (fst (CustomerServiceOp_Update t customer c)) =
     snd (fst (Put_CustomerResource (CustomerServiceOp.client t)
                 (''admin/customers/'' @ fmtInteger (unat (Customer.ID customer)) [] @ ''.json'')
                 \<lparr>Customer = Some customer\<rparr> \<lparr>Customer = None\<rparr> c))
   \<and> snd (CustomerServiceOp_Update t customer c) =
     snd (Put_CustomerResource (CustomerServiceOp.client t)
            (''admin/customers/'' @ fmtInteger (unat (Customer.ID customer)) [] @ ''.json'')
            \<lparr>Customer = Some customer\<rparr> \<lparr>Customer = None\<rparr> c)
   \<and> ProductServiceOp_Count s options c =
     Count (ProductServiceOp.client s)
       ''admin/products/count.json'' options c
   \<and> ProductServiceOp_Delete s n c =
     Delete (ProductServiceOp.client s)
       (''admin/products/'' @ fmtInteger (unat n) [] @ ''.json'') c
   \<and> CustomerServiceOp_Count t options c =
     Count (CustomerServiceOp.client t)
       ''admin/customers/count.json'' options c
   \<and> CustomerServiceOp_Delete t n c =
     Delete (CustomerServiceOp.client t)
       (''admin/customers/'' @ fmtInteger (unat n) [] @ ''.json'') c"
  by (simp add: calls case_prod_beta)

theorem errors_pass_through_witness:
  "snd (fst (ProductServiceOp_List \<lparr>ProductServiceOp.client = timing_out\<rparr> None [])) = Some (Error ''timeout'')
   \<and> snd (ProductServiceOp_List \<lparr>ProductServiceOp.client = timing_out\<rparr> None []) = [GetCall ''admin/products.json'']
   \<and> snd (fst (ProductServiceOp_Get \<lparr>ProductServiceOp.client = timing_out\<rparr> 42 None [])) = Some (Error ''timeout'')
   \<and> snd (ProductServiceOp_Get \<lparr>ProductServiceOp.client = timing_out\<rparr> 42 None []) = [GetCall ''admin/products/42.json'']
   \<and> snd (fst (ProductServiceOp_Create \<lparr>ProductServiceOp.client = timing_out\<rparr> mug [])) = Some (Error ''timeout'')
   \<and> snd (ProductServiceOp_Create \<lparr>ProductServiceOp.client = timing_out\<rparr> mug []) = [PostCall ''admin/products.json'']
   \<and> snd (fst (ProductServiceOp_Update \<lparr>ProductServiceOp.client = timing_out\<rparr> mug [])) = Some (Error ''timeout'')
   \<and> snd (ProductServiceOp_Update \<lparr>ProductServiceOp.client = timing_out\<rparr> mug []) = [PutCall ''admin/products/7.json'']
   \<and> snd (fst (CustomerServiceOp_List \<lparr>CustomerServiceOp.client = timing_out\<rparr> None [])) = Some (Error ''timeout'')
   \<and> snd (CustomerServiceOp_List \<lparr>CustomerServiceOp.client = timing_out\<rparr> None []) = [GetCall ''admin/customers.json'']
   \<and> snd (fst (CustomerServiceOp_Get \<lparr>CustomerServiceOp.client = timing_out\<rparr> 42 None [])) = Some (Error ''timeout'')
   \<and> snd (CustomerServiceOp_Get \<lparr>CustomerServiceOp.client = timing_out\<rparr> 42 None []) = [GetCall ''admin/customers/42.json'']
   \<and> snd (fst (CustomerServiceOp_Search \<lparr>CustomerServiceOp.client = timing_out\<rparr> None [])) = Some (Error ''timeout'')
   \<and> snd (CustomerServiceOp_Search \<lparr>CustomerServiceOp.client = timing_out\<rparr> None []) = [GetCall ''admin/customers/search.json'']
   \<and> snd (fst (CustomerServiceOp_Create \<lparr>CustomerServiceOp.client = timing_out\<rparr> ada [])) = Some (Error ''timeout'')
   \<and> snd (CustomerServiceOp_Create \<lparr>CustomerServiceOp.client = timing_out\<rparr> ada []) = [PostCall ''admin/customers.json'']
   \<and> snd (fst (CustomerServiceOp_Update \<lparr>CustomerServiceOp.client = timing_out\<rparr> ada [])) = Some (Error ''timeout'')
   \<and> snd (CustomerServiceOp_Update \<lparr>CustomerServiceOp.client = timing_out\<rparr> ada []) = [PutCall ''admin/customers/7.json'']
   \<and> ProductServiceOp_Count \<lparr>ProductServiceOp.client = timing_out\<rparr> None [] =
     ((0, Some (Error ''timeout'')), [CountCall ''admin/products/count.json''])
   \<and> ProductServiceOp_Delete \<lparr>ProductServiceOp.client = timing_out\<rparr> 42 [] =
     (Some (Error ''timeout''), [DeleteCall ''admin/products/42.json''])
   \<and> CustomerServiceOp_Count \<lparr>CustomerServiceOp.client = timing_out\<rparr> None [] =
     ((0, Some (Error ''timeout'')), [CountCall ''admin/customers/count.json''])
   \<and> CustomerServiceOp_Delete \<lparr>CustomerServiceOp.client = timing_out\<rparr> 42 [] =
     (Some (Error ''timeout''), [DeleteCall ''admin/customers/42.json''])"
  using errors_pass_through [of "\<lparr>ProductServiceOp.client = timing_out\<rparr>" None "[]" 42 mug
      "\<lparr>CustomerServiceOp.client = timing_out\<rparr>" ada]
  by (simp add: timing_out_def answering_calls fmtInteger_42 fmtInteger_7 fixture_IDs)

text \<open>
  C9. If the client's Get succeeds (nil error) and leaves the singular field of the envelope
  unset, Get of a product and Get of a customer return a nil entity with a nil error.
\<close>

theorem get_nil_nil:
  "(Get_ProductResource (ProductServiceOp.client s)
        (''admin/products/'' @ fmtInteger (unat n) [] @ ''.json'')
        \<lparr>Product = None\<rparr> options c = ((r, None), c') \<and> Product r = None
      \<longrightarrow> ProductServiceOp_Get s n options c = ((None, None), c'))
   \<and> (Get_CustomerResource (CustomerServiceOp.client t)
        (''admin/customers/'' @ fmtInteger (unat n) [] @ ''.json'')
        \<lparr>Customer = None\<rparr> options c = ((r', None), c'') \<and> Customer r' = None
      \<longrightarrow> CustomerServiceOp_Get t n options c = ((None, None), c''))"
  by (simp add: ProductServiceOp_Get_call CustomerServiceOp_Get_call)

theorem get_nil_nil_witness:
  "Get_ProductResource accepting ''admin/products/42.json'' \<lparr>Product = None\<rparr> None [] =
     ((\<lparr>Product = None\<rparr>, None), [GetCall ''admin/products/42.json''])
   \<and> ProductServiceOp_Get \<lparr>ProductServiceOp.client = accepting\<rparr> 42 None [] =
     ((None, None), [GetCall ''admin/products/42.json''])
   \<and> Get_CustomerResource accepting ''admin/customers/42.json'' \<lparr>Customer = None\<rparr> None [] =
     ((\<lparr>Customer = None\<rparr>, None), [GetCall ''admin/customers/42.json''])
   \<and> CustomerServiceOp_Get \<lparr>CustomerServiceOp.client = accepting\<rparr> 42 None [] =
     ((None, None), [GetCall ''admin/customers/42.json''])"
  using get_nil_nil [of "\<lparr>ProductServiceOp.client = accepting\<rparr>" 42 None "[]"
      "\<lparr>Product = None\<rparr>" "[GetCall ''admin/products/42.json'']"
      "\<lparr>CustomerServiceOp.client = accepting\<rparr>"
      "\<lparr>Customer = None\<rparr>" "[GetCall ''admin/customers/42.json'']"]
  by (simp add: accepting_def answering_calls fmtInteger_42)

text \<open>
  C10. For every uint64 id, the path that Get of a customer builds with the verb \<^verbatim>\<open>%v\<close>
  is the path built with \<^verbatim>\<open>%d\<close>, as Delete of a customer and Get of a product do: both
  are \<^verbatim>\<open>admin/customers/<id>.json\<close> with the id in decimal, so Get with either verb is
  the same operation.
\<close>

theorem verbs_agree:
  "Sprintf ''%s/%v.json'' [VString customersBasePath, VUint n] =
     Sprintf ''%s/%d.json'' [VString customersBasePath, VUint n]
   \<and> Sprintf ''%s/%v.json'' [VString customersBasePath, VUint n] =
     ''admin/customers/'' @ fmtInteger (unat n) [] @ ''.json''
   \<and> Sprintf ''%s/%d.json'' [VString productsBasePath, VUint n] =
     ''admin/products/'' @ fmtInteger (unat n) [] @ ''.json''
   \<and> list_all is_digit (fmtInteger (unat n) [])
   \<and> decimal_value (fmtInteger (unat n) []) = unat n
   \<and> CustomerServiceOp_Get t n options c = CustomerServiceOp_Get_d t n options c"
  using digits_fmtInteger [of "unat n"] decimal_value_fmtInteger [of "unat n"]
  by (simp add: paths CustomerServiceOp_Get_call CustomerServiceOp_Get_d_call)

theorem verbs_agree_witness:
  "Sprintf ''%s/%v.json'' [VString customersBasePath, VUint 42] = ''admin/customers/42.json''
   \<and> Sprintf ''%s/%d.json'' [VString customersBasePath, VUint 42] = ''admin/customers/42.json''
   \<and> Sprintf ''%s/%v.json'' [VString customersBasePath, VUint 18446744073709551615] =
     ''admin/customers/18446744073709551615.json''
   \<and> Sprintf ''%s/%d.json'' [VString customersBasePath, VUint 18446744073709551615] =
     ''admin/customers/18446744073709551615.json''
   \<and> CustomerServiceOp_Get_d \<lparr>CustomerServiceOp.client = accepting\<rparr> 42 None [] =
     ((None, None), [GetCall ''admin/customers/42.json''])"
  using verbs_agree [of 42 "\<lparr>CustomerServiceOp.client = accepting\<rparr>" None "[]"]
    verbs_agree [of 18446744073709551615 "\<lparr>CustomerServiceOp.client = accepting\<rparr>" None "[]"]
  by (simp add: paths fmtInteger_42 fmtInteger_max CustomerServiceOp_Get_d_call accepting_def
      answering_calls)

end
